theory Spec2Isabelle
  imports Complex_Main
begin

section \<open>Common data\<close>

text \<open>
  The notebook \<^verbatim>\<open>tutorial_simsiam_esa.ipynb\<close> trains a SimSiam model and plots the
  embeddings of its backbone. Python floats are idealised as real numbers; the division
  of the rescaling step, whose divisor can be zero, has its non-finite results written
  out. Exceptions are values of \<open>py_error\<close>; a function that can raise returns a sum, with
  the exception on the left.
\<close>

datatype py_error =
    ValueError
  | IndexError
  | FileNotFoundError
  | RuntimeError
  | OtherError nat

type_synonym point = "real \<times> real"

text \<open>An embedding is one row of the \<open>(n, num_ftrs)\<close> array \<^verbatim>\<open>embeddings\<close>.\<close>

type_synonym embedding = "real list"

text \<open>A two-axis array of floats, as the list of its rows.\<close>

type_synonym matrix = "real list list"

section \<open>Configuration (cell 5 and cell 7)\<close>

definition batch_size :: nat where
  "batch_size = 128"

definition epochs :: nat where
  "epochs = 50"

definition out_dim :: nat where
  "out_dim = 512"

definition path_to_data :: string where
  "path_to_data = ''/datasets/sentinel-2-italy-v1/''"

section \<open>Rescaling the 2D embeddings (cell 21)\<close>

text \<open>
  \<^verbatim>\<open>
  M = np.max(embeddings_2d, axis=0)
  m = np.min(embeddings_2d, axis=0)
  embeddings_2d = (embeddings_2d - m) / (M - m)
  \<close>
  \<^verbatim>\<open>embeddings_2d\<close> is an \<open>(n, 2)\<close> array: a list of points. numpy's reduction of an
  empty array raises ValueError. numpy's division never raises: a zero divisor gives
  \<open>nan\<close> for a zero dividend and a signed infinity otherwise (with a warning).
\<close>

datatype npfloat = Finite real | PosInf | NegInf | NaN

definition np_true_divide :: "real \<Rightarrow> real \<Rightarrow> npfloat" where
  "np_true_divide a b =
     (if b \<noteq> 0 then Finite (a / b)
      else if a = 0 then NaN
      else if 0 < a then PosInf else NegInf)"

definition np_max_axis0 :: "point list \<Rightarrow> point" where
  "np_max_axis0 E = (Max (fst ` set E), Max (snd ` set E))"

definition np_min_axis0 :: "point list \<Rightarrow> point" where
  "np_min_axis0 E = (Min (fst ` set E), Min (snd ` set E))"

definition rescale :: "point list \<Rightarrow> py_error + (npfloat \<times> npfloat) list" where
  "rescale E =
     (if E = [] then Inl ValueError
      else
        let M = np_max_axis0 E;
            m = np_min_axis0 E
        in Inr (map (\<lambda>p. (np_true_divide (fst p - fst m) (fst M - fst m),
                           np_true_divide (snd p - snd m) (snd M - snd m))) E))"

text \<open>A finite result, read back as a point.\<close>

definition finite_point :: "point \<Rightarrow> npfloat \<times> npfloat" where
  "finite_point p = (Finite (fst p), Finite (snd p))"

section \<open>Datasets and data loaders (cell 9)\<close>

text \<open>
  The image files under a directory, in the order a dataset lists them, each with its
  decoded image.
\<close>

type_synonym 'raw filesystem = "string \<Rightarrow> (string \<times> 'raw) list"

text \<open>
  \<^verbatim>\<open>lightly.data.LightlyDataset(input_dir, transform)\<close>: one sample
  \<^verbatim>\<open>(image, target, fname)\<close> per file under \<^verbatim>\<open>input_dir\<close>, the image passed through the
  transform. Both loops of the notebook drop the target (\<^verbatim>\<open>_\<close>), so a sample is the pair
  of the image and the file name. A dataset built without a transform has the identity.
\<close>

definition LightlyDataset :: "'raw filesystem \<Rightarrow> string \<Rightarrow> ('raw \<Rightarrow> 'img) \<Rightarrow> ('img \<times> string) list" where
  "LightlyDataset fs input_dir transform =
     map (\<lambda>entry. (transform (snd entry), fst entry)) (fs input_dir)"

text \<open>Consecutive batches of \<open>n\<close> items; the last one may be shorter.\<close>

function chunks :: "nat \<Rightarrow> 'a list \<Rightarrow> 'a list list" where
  "chunks n xs = (if n = 0 \<or> xs = [] then [] else take n xs # chunks n (drop n xs))"
  by pat_completeness auto
termination
  by (relation "measure (\<lambda>(n, xs). length xs)") auto

declare chunks.simps [simp del]

text \<open>
  \<^verbatim>\<open>torch.utils.data.DataLoader(dataset, batch_size, shuffle, drop_last)\<close>, iterated once:
  the samples in the sampler's order, cut into batches. With \<^verbatim>\<open>shuffle=False\<close> the order
  is the dataset's (no permutation is given); with \<^verbatim>\<open>shuffle=True\<close> it is the
  permutation of the indices drawn for this iteration. \<^verbatim>\<open>drop_last\<close> drops a last batch
  that is not full.
\<close>

definition DataLoader :: "'a list \<Rightarrow> nat \<Rightarrow> nat list option \<Rightarrow> bool \<Rightarrow> 'a list list" where
  "DataLoader dataset bs perm drop_last =
     (let order = (case perm of None \<Rightarrow> [0..<length dataset] | Some p \<Rightarrow> p);
          batches = chunks bs (map (\<lambda>i. dataset ! i) order)
      in if drop_last then filter (\<lambda>b. length b = bs) batches else batches)"

text \<open>
  \<^verbatim>\<open>
  dataset_train_simsiam = lightly.data.LightlyDataset(input_dir=path_to_data)
  dataloader_train_simsiam = torch.utils.data.DataLoader(dataset_train_simsiam,
      batch_size=batch_size, shuffle=True, collate_fn=collate_fn, drop_last=True, ...)
  \<close>
  The collate function of lightly turns the images of a batch into two randomly augmented
  views \<^verbatim>\<open>(x0, x1)\<close>; a batch of the loader is \<^verbatim>\<open>((x0, x1), targets, fnames)\<close>.
\<close>

definition dataset_train_simsiam :: "'raw filesystem \<Rightarrow> ('raw \<times> string) list" where
  "dataset_train_simsiam fs = LightlyDataset fs path_to_data (\<lambda>raw. raw)"

definition dataloader_train_simsiam ::
  "'raw filesystem \<Rightarrow> ('raw list \<Rightarrow> 'x list \<times> 'x list) \<Rightarrow> nat list
     \<Rightarrow> (('x list \<times> 'x list) \<times> string list) list" where
  "dataloader_train_simsiam fs collate_fn perm =
     map (\<lambda>b. (collate_fn (map fst b), map snd b))
       (DataLoader (dataset_train_simsiam fs) batch_size (Some perm) True)"

text \<open>
  \<^verbatim>\<open>
  dataset_test = lightly.data.LightlyDataset(input_dir=path_to_data, transform=test_transforms)
  dataloader_test = torch.utils.data.DataLoader(dataset_test,
      batch_size=batch_size, shuffle=False, drop_last=False, ...)
  \<close>
  The default collation stacks the images of a batch: a batch is
  \<^verbatim>\<open>(x, targets, fnames)\<close>, with \<open>x\<close> the list of its images.
\<close>

definition dataset_test :: "'raw filesystem \<Rightarrow> ('raw \<Rightarrow> 'x) \<Rightarrow> ('x \<times> string) list" where
  "dataset_test fs test_transforms = LightlyDataset fs path_to_data test_transforms"

definition dataloader_test :: "'raw filesystem \<Rightarrow> ('raw \<Rightarrow> 'x) \<Rightarrow> ('x list \<times> string list) list" where
  "dataloader_test fs test_transforms =
     map (\<lambda>b. (map fst b, map snd b))
       (DataLoader (dataset_test fs test_transforms) batch_size None False)"

section \<open>The SimSiam model (cell 11)\<close>

text \<open>
  A tensor: its data, and the node of the autograd graph that produced it, if gradients
  flow to it (\<^verbatim>\<open>grad_fn\<close>). The graph nodes are the library's; \<^verbatim>\<open>detach\<close> gives the
  same data with no node.
\<close>

record ('d, 'g) tensor =
  tdata :: 'd
  grad_fn :: "'g option"

definition detach :: "('d, 'g) tensor \<Rightarrow> ('d, 'g) tensor" where
  "detach t = t\<lparr>grad_fn := None\<rparr>"

text \<open>
  The module: the backbone and the two heads, each a function of the batch that depends
  on the mode of the module (\<^verbatim>\<open>training\<close>), as batch normalisation does. The backbone
  gives a \<open>(batch, channels, height, width)\<close> array. An optimizer step gives a new module.
\<close>

record ('x, 'g) SimSiam =
  backbone :: "bool \<Rightarrow> 'x list \<Rightarrow> (real list list list list, 'g) tensor"
  projection_head :: "bool \<Rightarrow> (matrix, 'g) tensor \<Rightarrow> (matrix, 'g) tensor"
  prediction_head :: "bool \<Rightarrow> (matrix, 'g) tensor \<Rightarrow> (matrix, 'g) tensor"
  training :: bool

text \<open>
  What the training and embedding cells call in torch and lightly: the graph nodes of
  \<^verbatim>\<open>flatten\<close>, of the sum and of the product by a constant; the criterion
  \<^verbatim>\<open>lightly.loss.NegativeCosineSimilarity()\<close>; \<^verbatim>\<open>loss.backward()\<close>, which adds to the
  gradients of the parameters; \<^verbatim>\<open>optimizer.step()\<close> and \<^verbatim>\<open>optimizer.zero_grad()\<close>.
  These calls are taken to return.
\<close>

record ('x, 'g, 'gr, 'o) torch =
  view_backward :: "'g \<Rightarrow> 'g"
  add_backward :: "'g option \<Rightarrow> 'g option \<Rightarrow> 'g"
  mul_backward :: "real \<Rightarrow> 'g \<Rightarrow> 'g"
  criterion :: "(matrix, 'g) tensor \<Rightarrow> (matrix, 'g) tensor \<Rightarrow> (real, 'g) tensor"
  backward :: "(real, 'g) tensor \<Rightarrow> 'gr \<Rightarrow> 'gr"
  optimizer_step :: "'gr \<Rightarrow> 'o \<times> ('x, 'g) SimSiam \<Rightarrow> 'o \<times> ('x, 'g) SimSiam"
  optimizer_zero_grad :: "'gr \<Rightarrow> 'gr"

text \<open>\<^verbatim>\<open>t.flatten(start_dim=1)\<close> on a four-axis tensor: one row per item of the batch.\<close>

definition flatten_start_dim1 ::
  "('x, 'g, 'gr, 'o) torch \<Rightarrow> (real list list list list, 'g) tensor \<Rightarrow> (matrix, 'g) tensor" where
  "flatten_start_dim1 T t =
     \<lparr>tdata = map (\<lambda>item. concat (map concat item)) (tdata t),
      grad_fn = map_option (view_backward T) (grad_fn t)\<rparr>"

text \<open>The sum of two scalar tensors, and the product of a Python float and a scalar tensor.\<close>

definition tensor_add ::
  "('x, 'g, 'gr, 'o) torch \<Rightarrow> (real, 'g) tensor \<Rightarrow> (real, 'g) tensor \<Rightarrow> (real, 'g) tensor" where
  "tensor_add T a b =
     \<lparr>tdata = tdata a + tdata b,
      grad_fn = (if grad_fn a = None \<and> grad_fn b = None then None
                 else Some (add_backward T (grad_fn a) (grad_fn b)))\<rparr>"

definition tensor_rmul ::
  "('x, 'g, 'gr, 'o) torch \<Rightarrow> real \<Rightarrow> (real, 'g) tensor \<Rightarrow> (real, 'g) tensor" where
  "tensor_rmul T c a =
     \<lparr>tdata = c * tdata a, grad_fn = map_option (mul_backward T c) (grad_fn a)\<rparr>"

text \<open>
  \<^verbatim>\<open>
  def forward(self, x):
      f = self.backbone(x).flatten(start_dim=1)
      z = self.projection_head(f)
      p = self.prediction_head(z)
      z = z.detach()
      return z, p
  \<close>
\<close>

definition forward ::
  "('x, 'g, 'gr, 'o) torch \<Rightarrow> ('x, 'g) SimSiam \<Rightarrow> 'x list
     \<Rightarrow> (matrix, 'g) tensor \<times> (matrix, 'g) tensor" where
  "forward T self x =
     (let f = flatten_start_dim1 T (backbone self (training self) x);
          z = projection_head self (training self) f;
          p = prediction_head self (training self) z;
          z = detach z
      in (z, p))"

section \<open>Training (cell 15)\<close>

text \<open>
  The statistics of the outputs, on the data of the detached predictions:
  \<^verbatim>\<open>torch.nn.functional.normalize(output, dim=1)\<close> divides each row by its Euclidean norm
  (by \<open>1e-12\<close> if the norm is smaller); \<^verbatim>\<open>torch.std(output, 0)\<close> is the standard deviation
  of each column with Bessel's correction; \<^verbatim>\<open>.mean()\<close> averages them. The batches of the
  training loader have \<^verbatim>\<open>batch_size\<close> rows (\<^verbatim>\<open>drop_last=True\<close>), so the divisors are not
  zero there; torch gives \<open>nan\<close> where a divisor is zero, which these definitions do not
  model.
\<close>

definition mean :: "real list \<Rightarrow> real" where
  "mean xs = sum_list xs / real (length xs)"

definition l2_norm :: "real list \<Rightarrow> real" where
  "l2_norm row = sqrt (sum_list (map (\<lambda>v. v\<^sup>2) row))"

definition normalize_dim1 :: "matrix \<Rightarrow> matrix" where
  "normalize_dim1 m = map (\<lambda>row. map (\<lambda>v. v / max (l2_norm row) (1 / 10 ^ 12)) row) m"

definition std :: "real list \<Rightarrow> real" where
  "std xs = sqrt (sum_list (map (\<lambda>x. (x - mean xs)\<^sup>2) xs) / (real (length xs) - 1))"

definition std_dim0 :: "matrix \<Rightarrow> real list" where
  "std_dim0 m =
     (case m of
        [] \<Rightarrow> []
      | row # _ \<Rightarrow> map (\<lambda>j. std (map (\<lambda>r. r ! j) m)) [0..<length row])"

text \<open>
  \<^verbatim>\<open>
  output = p0.detach()
  output = torch.nn.functional.normalize(output, dim=1)
  output_std = torch.std(output, 0)
  output_std = output_std.mean()
  \<close>
\<close>

definition output_std :: "(matrix, 'g) tensor \<Rightarrow> real" where
  "output_std p0 = mean (std_dim0 (normalize_dim1 (tdata (detach p0))))"

text \<open>
  The state of the training cell: the module, the gradients stored with its parameters,
  the optimizer, the two moving averages and the lines printed so far (epoch, loss,
  collapse level).
\<close>

record ('x, 'g, 'gr, 'o) train_state =
  model :: "('x, 'g) SimSiam"
  grads :: 'gr
  optimizer :: 'o
  avg_loss :: real
  avg_output_std :: real
  printed :: "(nat \<times> real \<times> real) list"

text \<open>
  \<^verbatim>\<open>
  z0, p0 = model(x0)
  z1, p1 = model(x1)
  loss = 0.5 * (criterion(z0, p1) + criterion(z1, p0))
  loss.backward()
  optimizer.step()
  optimizer.zero_grad()
  ...
  w = 0.9
  avg_loss = w * avg_loss + (1 - w) * loss.item()
  avg_output_std = w * avg_output_std + (1 - w) * output_std.item()
  \<close>
  The body of the batch loop, on the batch \<^verbatim>\<open>(x0, x1)\<close>.
\<close>

definition train_step ::
  "('x, 'g, 'gr, 'o) torch \<Rightarrow> 'x list \<times> 'x list
     \<Rightarrow> ('x, 'g, 'gr, 'o) train_state \<Rightarrow> ('x, 'g, 'gr, 'o) train_state" where
  "train_step T batch st =
     (let x0 = fst batch; x1 = snd batch;
          zp0 = forward T (model st) x0; z0 = fst zp0; p0 = snd zp0;
          zp1 = forward T (model st) x1; z1 = fst zp1; p1 = snd zp1;
          loss = tensor_rmul T (1 / 2) (tensor_add T (criterion T z0 p1) (criterion T z1 p0));
          g = backward T loss (grads st);
          om = optimizer_step T g (optimizer st, model st);
          g' = optimizer_zero_grad T g;
          w = 9 / 10
      in st\<lparr>model := snd om, grads := g', optimizer := fst om,
            avg_loss := w * avg_loss st + (1 - w) * tdata loss,
            avg_output_std := w * avg_output_std st + (1 - w) * output_std p0\<rparr>)"

text \<open>
  One epoch: the batch loop, then
  \<^verbatim>\<open>collapse_level = max(0., 1 - math.sqrt(out_dim) * avg_output_std)\<close> and the print.
\<close>

definition collapse_level :: "real \<Rightarrow> real" where
  "collapse_level avg_std = max 0 (1 - sqrt (real out_dim) * avg_std)"

definition train_epoch ::
  "('x, 'g, 'gr, 'o) torch \<Rightarrow> (nat \<Rightarrow> ('x list \<times> 'x list) list) \<Rightarrow> nat
     \<Rightarrow> ('x, 'g, 'gr, 'o) train_state \<Rightarrow> ('x, 'g, 'gr, 'o) train_state" where
  "train_epoch T loader e st =
     (let st' = fold (train_step T) (loader e) st
      in st'\<lparr>printed := printed st' @ [(e, avg_loss st', collapse_level (avg_output_std st'))]\<rparr>)"

text \<open>
  The whole cell, for \<open>n\<close> epochs: \<^verbatim>\<open>avg_loss = 0.\<close>, \<^verbatim>\<open>avg_output_std = 0.\<close>, then
  \<^verbatim>\<open>for e in range(epochs)\<close>. \<open>loader e\<close> is the list of the batches \<^verbatim>\<open>(x0, x1)\<close> that
  iterating the training loader gives in epoch \<open>e\<close>.
\<close>

definition initial_state ::
  "('x, 'g) SimSiam \<Rightarrow> 'gr \<Rightarrow> 'o \<Rightarrow> ('x, 'g, 'gr, 'o) train_state" where
  "initial_state m g opt =
     \<lparr>model = m, grads = g, optimizer = opt, avg_loss = 0, avg_output_std = 0, printed = []\<rparr>"

definition train ::
  "('x, 'g, 'gr, 'o) torch \<Rightarrow> (nat \<Rightarrow> ('x list \<times> 'x list) list) \<Rightarrow> nat
     \<Rightarrow> ('x, 'g, 'gr, 'o) train_state \<Rightarrow> ('x, 'g, 'gr, 'o) train_state" where
  "train T loader n st = fold (train_epoch T loader) [0..<n] st"

text \<open>The cell as the notebook runs it: \<^verbatim>\<open>epochs\<close> epochs from the initial state.\<close>

definition training_cell ::
  "('x, 'g, 'gr, 'o) torch \<Rightarrow> (nat \<Rightarrow> ('x list \<times> 'x list) list)
     \<Rightarrow> ('x, 'g) SimSiam \<Rightarrow> 'gr \<Rightarrow> 'o \<Rightarrow> ('x, 'g, 'gr, 'o) train_state" where
  "training_cell T loader m g opt = train T loader epochs (initial_state m g opt)"

section \<open>Embedding the dataset (cell 17)\<close>

text \<open>
  \<^verbatim>\<open>
  embeddings = []
  filenames = []
  model.eval()
  with torch.no_grad():
      for i, (x, _, fnames) in enumerate(dataloader_test):
          y = model.backbone(x).flatten(start_dim=1)
          embeddings.append(y)
          filenames = filenames + list(fnames)
  embeddings = torch.cat(embeddings, dim=0)
  embeddings = embeddings.cpu().numpy()
  \<close>
  \<^verbatim>\<open>torch.cat\<close> raises RuntimeError on an empty list of tensors.
\<close>

definition model_eval :: "('x, 'g) SimSiam \<Rightarrow> ('x, 'g) SimSiam" where
  "model_eval m = m\<lparr>training := False\<rparr>"

definition embed_step ::
  "('x, 'g, 'gr, 'o) torch \<Rightarrow> ('x, 'g) SimSiam \<Rightarrow> 'x list \<times> string list
     \<Rightarrow> (matrix, 'g) tensor list \<times> string list \<Rightarrow> (matrix, 'g) tensor list \<times> string list" where
  "embed_step T m batch acc =
     (let x = fst batch; fnames = snd batch;
          y = flatten_start_dim1 T (backbone m (training m) x)
      in (fst acc @ [y], snd acc @ fnames))"

definition torch_cat :: "(matrix, 'g) tensor list \<Rightarrow> py_error + matrix" where
  "torch_cat ts = (if ts = [] then Inl RuntimeError else Inr (concat (map tdata ts)))"

definition embed ::
  "('x, 'g, 'gr, 'o) torch \<Rightarrow> ('x, 'g) SimSiam \<Rightarrow> ('x list \<times> string list) list
     \<Rightarrow> py_error + embedding list \<times> string list" where
  "embed T m loader =
     (let acc = fold (embed_step T (model_eval m)) loader ([], [])
      in case torch_cat (fst acc) of
           Inl e \<Rightarrow> Inl e
         | Inr embeddings \<Rightarrow> Inr (embeddings, snd acc))"

section \<open>Python and library primitives used by the plotting cells\<close>

text \<open>
  A \<^verbatim>\<open>for\<close> loop whose body may raise: the results of the iterations that completed are
  collected, the first exception ends the loop and is the result. Nothing in the notebook
  is wrapped in \<^verbatim>\<open>try\<close>, so every loop that calls a library has this shape.
\<close>

fun for_each :: "('a \<Rightarrow> py_error + 'b) \<Rightarrow> 'a list \<Rightarrow> py_error + 'b list" where
  "for_each body [] = Inr []"
| "for_each body (x # xs) =
     (case body x of
        Inl e \<Rightarrow> Inl e
      | Inr y \<Rightarrow> (case for_each body xs of Inl e \<Rightarrow> Inl e | Inr ys \<Rightarrow> Inr (y # ys)))"

text \<open>\<^verbatim>\<open>xs[i]\<close> for a non-negative index: IndexError out of range.\<close>

definition list_getitem :: "'a list \<Rightarrow> nat \<Rightarrow> py_error + 'a" where
  "list_getitem xs i = (if i < length xs then Inr (xs ! i) else Inl IndexError)"

text \<open>\<^verbatim>\<open>xs.index(x)\<close>: the first position of \<open>x\<close>, ValueError when it is absent.\<close>

fun list_index :: "'a list \<Rightarrow> 'a \<Rightarrow> py_error + nat" where
  "list_index [] x = Inl ValueError"
| "list_index (y # ys) x =
     (if y = x then Inr 0
      else (case list_index ys x of Inl e \<Rightarrow> Inl e | Inr i \<Rightarrow> Inr (Suc i)))"

text \<open>\<^verbatim>\<open>os.path.join(a, b)\<close> on POSIX, for two components.\<close>

definition os_path_join :: "string \<Rightarrow> string \<Rightarrow> string" where
  "os_path_join a b =
     (if b \<noteq> [] \<and> hd b = CHR ''/'' then b
      else if a = [] \<or> last a = CHR ''/'' then a @ b
      else a @ ''/'' @ b)"

text \<open>
  An image as an array: its shape, its pixel data (left abstract) and the width of the
  black frame drawn around it (\<open>0\<close> for an image as loaded).
\<close>

record 'p image =
  shape :: "nat list"
  pixels :: 'p
  frame :: nat

text \<open>
  What the plotting cells call in PIL, torchvision, matplotlib and numpy's random module:
  \<^verbatim>\<open>Image.open\<close> (which raises for a missing or unreadable file),
  \<^verbatim>\<open>functional.resize\<close>, \<^verbatim>\<open>rcParams['figure.figsize'][0]\<close>, the outcome of
  \<^verbatim>\<open>np.random.shuffle\<close> on a list, and the pixel data of \<^verbatim>\<open>np.zeros(shape)\<close>.
\<close>

record 'p plt_env =
  image_open :: "string \<Rightarrow> py_error + 'p image"
  resize :: "'p image \<Rightarrow> nat \<Rightarrow> 'p image"
  figsize0 :: real
  shuffle :: "nat list \<Rightarrow> nat list"
  np_zeros :: "nat list \<Rightarrow> 'p"

section \<open>Scatter plot with thumbnails (cell 23)\<close>

definition sqdist :: "point \<Rightarrow> point \<Rightarrow> real" where
  "sqdist p q = (fst p - fst q)\<^sup>2 + (snd p - snd q)\<^sup>2"

text \<open>
  One iteration of the selection loop, on the pair
  \<^verbatim>\<open>(shown_images, shown_images_idx)\<close>:
  \<^verbatim>\<open>
  dist = np.sum((embeddings_2d[i] - shown_images) ** 2, 1)
  if np.min(dist) < 2e-3:
      continue
  shown_images = np.r_[shown_images, [embeddings_2d[i]]]
  shown_images_idx.append(i)
  \<close>
  \<^verbatim>\<open>shown_images\<close> is never empty: it starts with the point \<open>(1, 1)\<close>.
\<close>

definition scatter_step :: "point list \<Rightarrow> nat \<Rightarrow> point list \<times> nat list \<Rightarrow> point list \<times> nat list" where
  "scatter_step embeddings_2d i st =
     (let shown_images = fst st;
          shown_images_idx = snd st;
          dist = map (sqdist (embeddings_2d ! i)) shown_images
      in if Min (set dist) < 2 / 1000 then st
         else (shown_images @ [embeddings_2d ! i], shown_images_idx @ [i]))"

definition select_shown :: "point list \<Rightarrow> nat list \<Rightarrow> point list \<times> nat list" where
  "select_shown embeddings_2d iterator = fold (scatter_step embeddings_2d) iterator ([(1, 1)], [])"

text \<open>
  The function itself: the shuffled iterator, the selection, then one annotation box per
  selected index, holding the thumbnail and the position \<^verbatim>\<open>embeddings_2d[idx]\<close>. The
  figure's title and aspect ratio play no part in what is shown where.
\<close>

definition get_scatter_plot_with_thumbnails ::
  "'p plt_env \<Rightarrow> point list \<Rightarrow> string list \<Rightarrow> py_error + ('p image \<times> point) list" where
  "get_scatter_plot_with_thumbnails env embeddings_2d filenames =
     (let iterator = shuffle env [0..<length embeddings_2d];
          shown_images_idx = snd (select_shown embeddings_2d iterator)
      in for_each (\<lambda>idx.
           let thumbnail_size = nat \<lfloor>figsize0 env * 2\<rfloor>
           in case list_getitem filenames idx of
                Inl e \<Rightarrow> Inl e
              | Inr f \<Rightarrow>
                  (case image_open env (os_path_join path_to_data f) of
                     Inl e \<Rightarrow> Inl e
                   | Inr img \<Rightarrow> Inr (resize env img thumbnail_size, embeddings_2d ! idx)))
         shown_images_idx)"

section \<open>Nearest neighbours (cell 25)\<close>

definition example_images :: "string list" where
  "example_images =
     [''S2B_MSIL1C_20200526T101559_N0209_R065_T31TGE/tile_00154.png'',
      ''S2B_MSIL1C_20200526T101559_N0209_R065_T32SLJ/tile_00527.png'',
      ''S2B_MSIL1C_20200526T101559_N0209_R065_T32TNL/tile_00556.png'',
      ''S2B_MSIL1C_20200526T101559_N0209_R065_T31SGD/tile_01731.png'',
      ''S2B_MSIL1C_20200526T101559_N0209_R065_T32SMG/tile_00238.png'']"

definition get_image_as_np_array :: "'p plt_env \<Rightarrow> string \<Rightarrow> py_error + 'p image" where
  "get_image_as_np_array env filename =
     (case image_open env filename of Inl e \<Rightarrow> Inl e | Inr img \<Rightarrow> Inr img)"

text \<open>
  \<^verbatim>\<open>
  img = get_image_as_np_array(filename)
  ny, nx, _ = img.shape
  framed_img = np.zeros((w + ny + w, w + nx + w, 3))
  framed_img = framed_img.astype(np.uint8)
  framed_img[w:-w, w:-w] = img
  \<close>
  Unpacking the shape raises ValueError unless the array has three axes. The slice
  \<^verbatim>\<open>[w:-w]\<close> has \<open>ny\<close> (or \<open>nx\<close>) entries for \<open>w > 0\<close> and none for \<open>w = 0\<close>; the
  assignment raises ValueError unless the image broadcasts to the slice. For \<open>w > 0\<close> the
  result is the image inside a black frame of width \<open>w\<close>; for \<open>w = 0\<close> the slice is empty,
  nothing is copied and the result is the array of zeros. The notebook calls the function
  with the default \<open>w = 5\<close> only.
\<close>

definition get_image_as_np_array_with_frame ::
  "'p plt_env \<Rightarrow> string \<Rightarrow> nat \<Rightarrow> py_error + 'p image" where
  "get_image_as_np_array_with_frame env filename w =
     (case get_image_as_np_array env filename of
        Inl e \<Rightarrow> Inl e
      | Inr img \<Rightarrow>
          (case shape img of
             [ny, nx, c] \<Rightarrow>
               (let rows = (if w = 0 then 0 else ny);
                    cols = (if w = 0 then 0 else nx)
                in if (ny = rows \<or> ny = 1) \<and> (nx = cols \<or> nx = 1) \<and> (c = 3 \<or> c = 1)
                   then Inr \<lparr>shape = [w + ny + w, w + nx + w, 3],
                             pixels = (if w = 0 then np_zeros env [w + ny + w, w + nx + w, 3]
                                       else pixels img),
                             frame = w\<rparr>
                   else Inl ValueError)
           | _ \<Rightarrow> Inl ValueError))"

text \<open>
  \<^verbatim>\<open>
  distances = embeddings - embeddings[example_idx]
  distances = np.power(distances, 2).sum(-1).squeeze()
  \<close>
  The rows of \<^verbatim>\<open>embeddings\<close> have one length, so the broadcast subtraction is row by row.
\<close>

definition sq_distances :: "embedding list \<Rightarrow> embedding \<Rightarrow> real list" where
  "sq_distances embeddings c =
     map (\<lambda>e. sum_list (map (\<lambda>ab. (fst ab - snd ab)\<^sup>2) (zip e c))) embeddings"

text \<open>
  \<^verbatim>\<open>np.argsort(distances)\<close>: the indices in ascending order of their values. numpy's
  default sort (\<^verbatim>\<open>kind='quicksort'\<close>) promises no order among equal values. On arrays of up
  to \<open>16\<close> elements it is an insertion sort, which keeps equal values in index order; this
  is the order the model takes. On longer arrays numpy may order equal values
  differently, and the stable order is then one of the orders it can give: what is
  proved about \<open>np_argsort\<close> in general uses only that the result is a sorted permutation
  of the indices, and the concrete runs have at most \<open>16\<close> elements.
\<close>

definition np_argsort :: "real list \<Rightarrow> nat list" where
  "np_argsort ds = sort_key (\<lambda>i. ds ! i) [0..<length ds]"

definition n_subplots :: nat where
  "n_subplots = 9"

text \<open>The local variable \<^verbatim>\<open>nearest_neighbors\<close> of \<^verbatim>\<open>plot_nearest_neighbors_3x3\<close>.\<close>

definition nearest_neighbors :: "string list \<Rightarrow> embedding list \<Rightarrow> string \<Rightarrow> py_error + nat list" where
  "nearest_neighbors filenames embeddings example_image =
     (case list_index filenames example_image of
        Inl e \<Rightarrow> Inl e
      | Inr example_idx \<Rightarrow>
          (case list_getitem embeddings example_idx of
             Inl e \<Rightarrow> Inl e
           | Inr c \<Rightarrow> Inr (take n_subplots (np_argsort (sq_distances embeddings c)))))"

text \<open>
  A subplot of the \<open>3 \<times> 3\<close> grid: its position \<^verbatim>\<open>plot_offset + 1\<close> (counted row by row
  from \<open>1\<close>), its title if it has one, and the image shown in it. The figure carries the
  number \<^verbatim>\<open>i + 1\<close> of its title \<^verbatim>\<open>Nearest Neighbor Plot {i + 1}\<close>.
\<close>

record 'p subplot =
  position :: nat
  title :: "string option"
  shown :: "'p image"

record 'p figure =
  fig_number :: nat
  subplots :: "'p subplot list"

definition plot_nearest_neighbors_3x3 ::
  "'p plt_env \<Rightarrow> string list \<Rightarrow> embedding list \<Rightarrow> string \<Rightarrow> nat \<Rightarrow> py_error + 'p figure" where
  "plot_nearest_neighbors_3x3 env filenames embeddings example_image i =
     (case nearest_neighbors filenames embeddings example_image of
        Inl e \<Rightarrow> Inl e
      | Inr nn \<Rightarrow>
          (case for_each (\<lambda>op.
                  let plot_offset = fst op; plot_idx = snd op
                  in case list_getitem filenames plot_idx of
                       Inl e \<Rightarrow> Inl e
                     | Inr f \<Rightarrow>
                         (let fname = os_path_join path_to_data f
                          in if plot_offset = 0
                             then (case get_image_as_np_array_with_frame env fname 5 of
                                     Inl e \<Rightarrow> Inl e
                                   | Inr img \<Rightarrow>
                                       Inr \<lparr>position = plot_offset + 1,
                                            title = Some ''Example Image'', shown = img\<rparr>)
                             else (case get_image_as_np_array env fname of
                                     Inl e \<Rightarrow> Inl e
                                   | Inr img \<Rightarrow>
                                       Inr \<lparr>position = plot_offset + 1,
                                            title = None, shown = img\<rparr>)))
                (enumerate 0 nn) of
             Inl e \<Rightarrow> Inl e
           | Inr axes \<Rightarrow> Inr \<lparr>fig_number = i + 1, subplots = axes\<rparr>))"

text \<open>
  \<^verbatim>\<open>
  for i, example_image in enumerate(example_images):
      plot_nearest_neighbors_3x3(example_image, i)
  \<close>
\<close>

definition plot_all_examples ::
  "'p plt_env \<Rightarrow> string list \<Rightarrow> embedding list \<Rightarrow> py_error + 'p figure list" where
  "plot_all_examples env filenames embeddings =
     for_each (\<lambda>ie. plot_nearest_neighbors_3x3 env filenames embeddings (snd ie) (fst ie))
       (enumerate 0 example_images)"

section \<open>The cells as programs that may raise\<close>

text \<open>
  The notebook has no \<^verbatim>\<open>try\<close>, \<^verbatim>\<open>except\<close>, \<^verbatim>\<open>finally\<close> or \<^verbatim>\<open>with\<close> block other than
  \<^verbatim>\<open>with torch.no_grad()\<close>, and no check of an input before it is used. To state what that
  means for exceptions, the cells are written once more, statement by statement, as
  programs in which every call of a library (and every built-in operation that can
  raise) is a step that may raise.

  Which call raises what is open: a table of faults gives, for the text of a call and the
  position of the call in the loops around it (epoch and batch number, loop index), the
  exception that call raises, if any. A call for which the table has nothing has its own
  outcome: the value it returns, or the exception the call raises on its arguments where
  this development models one (\<^verbatim>\<open>Image.open\<close> of a missing file, \<^verbatim>\<open>filenames.index\<close> of an
  absent name, \<^verbatim>\<open>torch.cat\<close> of an empty list, an index out of range).
\<close>

type_synonym faults = "string \<Rightarrow> nat list \<Rightarrow> py_error option"

definition no_faults :: faults where
  "no_faults name occ = None"

text \<open>
  A run records the calls it made, in order: the text of the call, its position, the
  state of the notebook when it was made, and the exception it raised, if it raised.
\<close>

record 's call_entry =
  call_name :: string
  occurrence :: "nat list"
  state_before :: 's
  raised :: "py_error option"

text \<open>
  A program: from the table of faults and the state to the exception or the value, the
  state left behind, and the calls made.
\<close>

type_synonym ('a, 's) nb = "faults \<Rightarrow> 's \<Rightarrow> (py_error + 'a) \<times> 's \<times> 's call_entry list"

text \<open>An expression that calls nothing, the read of a variable, and an assignment.\<close>

definition value_nb :: "'a \<Rightarrow> ('a, 's) nb" where
  "value_nb a F s = (Inr a, s, [])"

definition read_nb :: "('s \<Rightarrow> 'a) \<Rightarrow> ('a, 's) nb" where
  "read_nb var F s = (Inr (var s), s, [])"

definition assign_nb :: "('s \<Rightarrow> 's) \<Rightarrow> (unit, 's) nb" where
  "assign_nb upd F s = (Inr (), upd s, [])"

text \<open>
  A call that returns a value: it raises what the table of faults says, otherwise it has
  its own outcome. A call that raises leaves the state as it was.
\<close>

definition lib_call :: "string \<Rightarrow> nat list \<Rightarrow> py_error + 'a \<Rightarrow> ('a, 's) nb" where
  "lib_call name occ outcome F s =
     (case F name occ of
        Some e \<Rightarrow>
          (Inl e, s, [\<lparr>call_name = name, occurrence = occ, state_before = s, raised = Some e\<rparr>])
      | None \<Rightarrow>
          (case outcome of
             Inl e \<Rightarrow>
               (Inl e, s,
                [\<lparr>call_name = name, occurrence = occ, state_before = s, raised = Some e\<rparr>])
           | Inr a \<Rightarrow>
               (Inr a, s,
                [\<lparr>call_name = name, occurrence = occ, state_before = s, raised = None\<rparr>])))"

text \<open>A call made for its effect on the state (\<^verbatim>\<open>optimizer.step()\<close>, \<^verbatim>\<open>plt.imshow\<close>).\<close>

definition lib_effect :: "string \<Rightarrow> nat list \<Rightarrow> ('s \<Rightarrow> 's) \<Rightarrow> (unit, 's) nb" where
  "lib_effect name occ upd F s =
     (case F name occ of
        Some e \<Rightarrow>
          (Inl e, s, [\<lparr>call_name = name, occurrence = occ, state_before = s, raised = Some e\<rparr>])
      | None \<Rightarrow>
          (Inr (), upd s,
           [\<lparr>call_name = name, occurrence = occ, state_before = s, raised = None\<rparr>]))"

text \<open>
  One statement after another. An exception of the first ends the sequence: this is
  Python's rule where no \<^verbatim>\<open>try\<close> encloses the statements, which is the case everywhere
  in the notebook.
\<close>

definition then_nb :: "('a, 's) nb \<Rightarrow> ('a \<Rightarrow> ('b, 's) nb) \<Rightarrow> ('b, 's) nb" where
  "then_nb m f F s =
     (case m F s of
        (Inl e, s', tr) \<Rightarrow> (Inl e, s', tr)
      | (Inr a, s', tr) \<Rightarrow> (case f a F s' of (r, s'', tr') \<Rightarrow> (r, s'', tr @ tr')))"

text \<open>A \<^verbatim>\<open>for\<close> loop over a list; \<^verbatim>\<open>continue\<close> is the end of the body.\<close>

fun for_nb :: "'a list \<Rightarrow> ('a \<Rightarrow> (unit, 's) nb) \<Rightarrow> (unit, 's) nb" where
  "for_nb [] body = value_nb ()"
| "for_nb (x # xs) body = then_nb (body x) (\<lambda>u. for_nb xs body)"

subsection \<open>Seeds, data and model (cells 7, 9, 11 and 13)\<close>




subsection \<open>Training (cell 15)\<close>

text \<open>
  \<^verbatim>\<open>model(x)\<close>, that is \<^verbatim>\<open>SimSiam.forward\<close>. The position \<open>occ\<close> is that of the call of the
  model: epoch, batch, and \<open>0\<close> or \<open>1\<close> for the view.
\<close>

definition forward_nb ::
  "('x, 'g, 'gr, 'o) torch \<Rightarrow> ('x, 'g) SimSiam \<Rightarrow> nat list \<Rightarrow> 'x list
     \<Rightarrow> ((matrix, 'g) tensor \<times> (matrix, 'g) tensor, 's) nb" where
  "forward_nb T self occ x =
     then_nb (lib_call ''self.backbone(x).flatten(start_dim=1)'' occ
                (Inr (flatten_start_dim1 T (backbone self (training self) x)))) (\<lambda>f.
     then_nb (lib_call ''self.projection_head(f)'' occ
                (Inr (projection_head self (training self) f))) (\<lambda>z.
     then_nb (lib_call ''self.prediction_head(z)'' occ
                (Inr (prediction_head self (training self) z))) (\<lambda>p.
     then_nb (lib_call ''z.detach()'' occ (Inr (detach z))) (\<lambda>z.
     value_nb (z, p)))))"

text \<open>The body of the batch loop, in epoch \<open>e\<close> on batch number \<open>b\<close>.\<close>

definition train_step_nb ::
  "('x, 'g, 'gr, 'o) torch \<Rightarrow> nat \<Rightarrow> nat \<Rightarrow> 'x list \<times> 'x list
     \<Rightarrow> (unit, ('x, 'g, 'gr, 'o) train_state) nb" where
  "train_step_nb T e b batch =
     then_nb (lib_call ''x0.to(device)'' [e, b] (Inr (fst batch))) (\<lambda>x0.
     then_nb (lib_call ''x1.to(device)'' [e, b] (Inr (snd batch))) (\<lambda>x1.
     then_nb (read_nb model) (\<lambda>m.
     then_nb (forward_nb T m [e, b, 0] x0) (\<lambda>zp0.
     then_nb (read_nb model) (\<lambda>m.
     then_nb (forward_nb T m [e, b, 1] x1) (\<lambda>zp1.
     then_nb (lib_call ''0.5 * (criterion(z0, p1) + criterion(z1, p0))'' [e, b]
                (Inr (tensor_rmul T (1 / 2)
                   (tensor_add T (criterion T (fst zp0) (snd zp1))
                                 (criterion T (fst zp1) (snd zp0)))))) (\<lambda>loss.
     then_nb (lib_effect ''loss.backward()'' [e, b]
                (\<lambda>s. s\<lparr>grads := backward T loss (grads s)\<rparr>)) (\<lambda>u.
     then_nb (lib_effect ''optimizer.step()'' [e, b]
                (\<lambda>s. s\<lparr>model := snd (optimizer_step T (grads s) (optimizer s, model s)),
                       optimizer := fst (optimizer_step T (grads s) (optimizer s, model s))\<rparr>)) (\<lambda>u.
     then_nb (lib_effect ''optimizer.zero_grad()'' [e, b]
                (\<lambda>s. s\<lparr>grads := optimizer_zero_grad T (grads s)\<rparr>)) (\<lambda>u.
     then_nb (lib_call ''p0.detach()'' [e, b] (Inr (detach (snd zp0)))) (\<lambda>output.
     then_nb (lib_call ''torch.nn.functional.normalize(output, dim=1)'' [e, b]
                (Inr (normalize_dim1 (tdata output)))) (\<lambda>output.
     then_nb (lib_call ''torch.std(output, 0)'' [e, b] (Inr (std_dim0 output))) (\<lambda>output_std.
     then_nb (lib_call ''output_std.mean()'' [e, b] (Inr (mean output_std))) (\<lambda>output_std.
     then_nb (lib_call ''loss.item()'' [e, b] (Inr (tdata loss))) (\<lambda>loss_item.
     then_nb (assign_nb (\<lambda>s. s\<lparr>avg_loss := 9 / 10 * avg_loss s + (1 - 9 / 10) * loss_item\<rparr>)) (\<lambda>u.
     then_nb (lib_call ''output_std.item()'' [e, b] (Inr output_std)) (\<lambda>output_std_item.
     assign_nb (\<lambda>s. s\<lparr>avg_output_std :=
                  9 / 10 * avg_output_std s + (1 - 9 / 10) * output_std_item\<rparr>))))))))))))))))))"

text \<open>
  One epoch: the batch loop (fetching a batch from the loader is a call too), the
  collapse level and the print.
\<close>

definition train_epoch_nb ::
  "('x, 'g, 'gr, 'o) torch \<Rightarrow> (nat \<Rightarrow> ('x list \<times> 'x list) list) \<Rightarrow> nat
     \<Rightarrow> (unit, ('x, 'g, 'gr, 'o) train_state) nb" where
  "train_epoch_nb T loader e =
     then_nb (for_nb (enumerate 0 (loader e)) (\<lambda>b_batch.
        then_nb (lib_call ''next(dataloader_train_simsiam)'' [e, fst b_batch]
                   (Inr (snd b_batch))) (\<lambda>batch.
        train_step_nb T e (fst b_batch) batch))) (\<lambda>u.
     then_nb (read_nb avg_output_std) (\<lambda>a.
     then_nb (lib_call ''math.sqrt(out_dim)'' [e] (Inr (sqrt (real out_dim)))) (\<lambda>root.
     then_nb (value_nb (max 0 (1 - root * a))) (\<lambda>collapse_level.
     then_nb (read_nb avg_loss) (\<lambda>l.
     lib_effect ''print'' [e] (\<lambda>s. s\<lparr>printed := printed s @ [(e, l, collapse_level)]\<rparr>))))))"

text \<open>The cell, for \<open>n\<close> epochs.\<close>

definition training_nb ::
  "('x, 'g, 'gr, 'o) torch \<Rightarrow> (nat \<Rightarrow> ('x list \<times> 'x list) list) \<Rightarrow> nat
     \<Rightarrow> (unit, ('x, 'g, 'gr, 'o) train_state) nb" where
  "training_nb T loader n =
     then_nb (lib_call ''torch.cuda.is_available()'' [] (Inr ())) (\<lambda>device.
     then_nb (lib_effect ''model.to(device)'' [] (\<lambda>s. s)) (\<lambda>u.
     then_nb (assign_nb (\<lambda>s. s\<lparr>avg_loss := 0\<rparr>)) (\<lambda>u.
     then_nb (assign_nb (\<lambda>s. s\<lparr>avg_output_std := 0\<rparr>)) (\<lambda>u.
     for_nb [0..<n] (train_epoch_nb T loader)))))"

subsection \<open>Embedding (cell 17)\<close>

text \<open>
  The state of the cell: the module, the list \<^verbatim>\<open>embeddings\<close> of tensors, the list
  \<^verbatim>\<open>filenames\<close>, and the array \<^verbatim>\<open>embeddings\<close> is rebound to at the end. The block
  \<^verbatim>\<open>with torch.no_grad()\<close> catches nothing: when it is left, by the end of the loop or by an
  exception, torch's gradient mode is put back, which is no part of this state, and an
  exception goes on.
\<close>

record ('x, 'g) embed_state =
  es_model :: "('x, 'g) SimSiam"
  es_embeddings :: "(matrix, 'g) tensor list"
  es_filenames :: "string list"
  es_array :: "matrix option"

definition embedding_nb ::
  "('x, 'g, 'gr, 'o) torch \<Rightarrow> ('x list \<times> string list) list \<Rightarrow> (unit, ('x, 'g) embed_state) nb" where
  "embedding_nb T loader =
     then_nb (assign_nb (\<lambda>s. s\<lparr>es_embeddings := []\<rparr>)) (\<lambda>u.
     then_nb (assign_nb (\<lambda>s. s\<lparr>es_filenames := []\<rparr>)) (\<lambda>u.
     then_nb (lib_effect ''model.eval()'' [] (\<lambda>s. s\<lparr>es_model := model_eval (es_model s)\<rparr>)) (\<lambda>u.
     then_nb (lib_call ''torch.no_grad()'' [] (Inr ())) (\<lambda>u.
     then_nb (for_nb (enumerate 0 loader) (\<lambda>i_batch.
        then_nb (lib_call ''next(dataloader_test)'' [fst i_batch] (Inr (snd i_batch))) (\<lambda>batch.
        then_nb (lib_call ''x.to(device)'' [fst i_batch] (Inr (fst batch))) (\<lambda>x.
        then_nb (read_nb es_model) (\<lambda>m.
        then_nb (lib_call ''model.backbone(x).flatten(start_dim=1)'' [fst i_batch]
                   (Inr (flatten_start_dim1 T (backbone m (training m) x)))) (\<lambda>y.
        then_nb (lib_effect ''embeddings.append(y)'' [fst i_batch]
                   (\<lambda>s. s\<lparr>es_embeddings := es_embeddings s @ [y]\<rparr>)) (\<lambda>u.
        then_nb (lib_call ''list(fnames)'' [fst i_batch] (Inr (snd batch))) (\<lambda>fnames.
        assign_nb (\<lambda>s. s\<lparr>es_filenames := es_filenames s @ fnames\<rparr>))))))))) (\<lambda>u.
     then_nb (read_nb es_embeddings) (\<lambda>embeddings.
     then_nb (lib_call ''torch.cat(embeddings, dim=0)'' [] (torch_cat embeddings)) (\<lambda>cat.
     then_nb (assign_nb (\<lambda>s. s\<lparr>es_array := Some cat\<rparr>)) (\<lambda>u.
     then_nb (lib_call ''embeddings.cpu().numpy()'' [] (Inr cat)) (\<lambda>array.
     assign_nb (\<lambda>s. s\<lparr>es_array := Some array\<rparr>))))))))))"

subsection \<open>Rescaling (cell 21)\<close>

text \<open>
  The state of the cell: \<^verbatim>\<open>embeddings_2d\<close>, \<^verbatim>\<open>M\<close> and \<^verbatim>\<open>m\<close>. The random projection is a
  parameter: the points \<^verbatim>\<open>projection.fit_transform(embeddings)\<close> returns.
\<close>

record rescale_state =
  rs_embeddings_2d :: "(npfloat \<times> npfloat) list option"
  rs_M :: "point option"
  rs_m :: "point option"

definition rescale_nb :: "(matrix \<Rightarrow> point list) \<Rightarrow> matrix \<Rightarrow> (unit, rescale_state) nb" where
  "rescale_nb fit_transform embeddings =
     then_nb (lib_call ''random_projection.GaussianRandomProjection(n_components=2)'' []
                (Inr ())) (\<lambda>projection.
     then_nb (lib_call ''projection.fit_transform(embeddings)'' []
                (Inr (fit_transform embeddings))) (\<lambda>E.
     then_nb (assign_nb (\<lambda>s. s\<lparr>rs_embeddings_2d := Some (map finite_point E)\<rparr>)) (\<lambda>u.
     then_nb (lib_call ''np.max(embeddings_2d, axis=0)'' []
                (if E = [] then Inl ValueError else Inr (np_max_axis0 E))) (\<lambda>M.
     then_nb (assign_nb (\<lambda>s. s\<lparr>rs_M := Some M\<rparr>)) (\<lambda>u.
     then_nb (lib_call ''np.min(embeddings_2d, axis=0)'' []
                (if E = [] then Inl ValueError else Inr (np_min_axis0 E))) (\<lambda>m.
     then_nb (assign_nb (\<lambda>s. s\<lparr>rs_m := Some m\<rparr>)) (\<lambda>u.
     then_nb (lib_call ''(embeddings_2d - m) / (M - m)'' []
                (Inr (map (\<lambda>p. (np_true_divide (fst p - fst m) (fst M - fst m),
                                 np_true_divide (snd p - snd m) (snd M - snd m))) E))) (\<lambda>R.
     assign_nb (\<lambda>s. s\<lparr>rs_embeddings_2d := Some R\<rparr>)))))))))"

subsection \<open>Scatter plot (cell 23)\<close>

text \<open>
  The state while \<^verbatim>\<open>get_scatter_plot_with_thumbnails\<close> runs: the figure (whether it
  exists, its title, whether it has its axes, the annotation boxes added to the axes,
  whether the aspect ratio was set) and the two variables the selection loop updates.
\<close>

record 'p scatter_state =
  sc_figure :: bool
  sc_suptitle :: "string option"
  sc_axes :: bool
  sc_artists :: "('p image \<times> point) list"
  sc_aspect :: bool
  sc_shown_images :: "point list"
  sc_shown_images_idx :: "nat list"

text \<open>The body of the selection loop, and the body of the loop over the selected indices.\<close>

definition select_nb :: "point list \<Rightarrow> nat \<Rightarrow> (unit, 'p scatter_state) nb" where
  "select_nb embeddings_2d i =
     then_nb (read_nb sc_shown_images) (\<lambda>shown_images.
     then_nb (lib_call ''np.sum((embeddings_2d[i] - shown_images) ** 2, 1)'' [i]
                (case list_getitem embeddings_2d i of
                   Inl e \<Rightarrow> Inl e
                 | Inr p \<Rightarrow> Inr (map (sqdist p) shown_images))) (\<lambda>dist.
     then_nb (lib_call ''np.min(dist)'' [i]
                (if dist = [] then Inl ValueError else Inr (Min (set dist)))) (\<lambda>d.
     if d < 2 / 1000 then value_nb ()
     else
       then_nb (lib_call ''np.r_[shown_images, [embeddings_2d[i]]]'' [i]
                  (case list_getitem embeddings_2d i of
                     Inl e \<Rightarrow> Inl e
                   | Inr p \<Rightarrow> Inr (shown_images @ [p]))) (\<lambda>r.
       then_nb (assign_nb (\<lambda>s. s\<lparr>sc_shown_images := r\<rparr>)) (\<lambda>u.
       lib_effect ''shown_images_idx.append(i)'' [i]
         (\<lambda>s. s\<lparr>sc_shown_images_idx := sc_shown_images_idx s @ [i]\<rparr>))))))"

definition thumbnail_nb ::
  "'p plt_env \<Rightarrow> point list \<Rightarrow> string list \<Rightarrow> nat \<Rightarrow> (unit, 'p scatter_state) nb" where
  "thumbnail_nb env embeddings_2d filenames idx =
     then_nb (lib_call ''int(rcp[figure.figsize][0] * 2.)'' [idx]
                (Inr (nat \<lfloor>figsize0 env * 2\<rfloor>))) (\<lambda>thumbnail_size.
     then_nb (lib_call ''os.path.join(path_to_data, filenames[idx])'' [idx]
                (case list_getitem filenames idx of
                   Inl e \<Rightarrow> Inl e
                 | Inr f \<Rightarrow> Inr (os_path_join path_to_data f))) (\<lambda>path.
     then_nb (lib_call ''Image.open(path)'' [idx] (image_open env path)) (\<lambda>img.
     then_nb (lib_call ''functional.resize(img, thumbnail_size)'' [idx]
                (Inr (resize env img thumbnail_size))) (\<lambda>img.
     then_nb (lib_call ''np.array(img)'' [idx] (Inr img)) (\<lambda>img.
     then_nb (lib_call ''osb.OffsetImage(img, cmap=plt.cm.gray_r)'' [idx] (Inr img)) (\<lambda>offset_image.
     then_nb (lib_call ''osb.AnnotationBbox(offset_image, embeddings_2d[idx], pad=0.2)'' [idx]
                (case list_getitem embeddings_2d idx of
                   Inl e \<Rightarrow> Inl e
                 | Inr p \<Rightarrow> Inr (offset_image, p))) (\<lambda>img_box.
     lib_effect ''ax.add_artist(img_box)'' [idx]
       (\<lambda>s. s\<lparr>sc_artists := sc_artists s @ [img_box]\<rparr>))))))))"

text \<open>The function.\<close>

definition scatter_nb ::
  "'p plt_env \<Rightarrow> point list \<Rightarrow> string list \<Rightarrow> (unit, 'p scatter_state) nb" where
  "scatter_nb env embeddings_2d filenames =
     then_nb (lib_effect ''plt.figure()'' [] (\<lambda>s. s\<lparr>sc_figure := True\<rparr>)) (\<lambda>u.
     then_nb (lib_effect ''fig.suptitle'' []
                (\<lambda>s. s\<lparr>sc_suptitle := Some ''Scatter Plot of the Sentinel-2 Dataset''\<rparr>)) (\<lambda>u.
     then_nb (lib_effect ''fig.add_subplot(1, 1, 1)'' [] (\<lambda>s. s\<lparr>sc_axes := True\<rparr>)) (\<lambda>u.
     then_nb (assign_nb (\<lambda>s. s\<lparr>sc_shown_images_idx := []\<rparr>)) (\<lambda>u.
     then_nb (lib_call ''np.array([[1., 1.]])'' [] (Inr [(1, 1)])) (\<lambda>a.
     then_nb (assign_nb (\<lambda>s. s\<lparr>sc_shown_images := a\<rparr>)) (\<lambda>u.
     then_nb (lib_call ''range(embeddings_2d.shape[0])'' [] (Inr [0..<length embeddings_2d])) (\<lambda>iterator.
     then_nb (lib_call ''np.random.shuffle(iterator)'' [] (Inr (shuffle env iterator))) (\<lambda>iterator.
     then_nb (for_nb iterator (select_nb embeddings_2d)) (\<lambda>u.
     then_nb (read_nb sc_shown_images_idx) (\<lambda>shown_images_idx.
     then_nb (for_nb shown_images_idx (thumbnail_nb env embeddings_2d filenames)) (\<lambda>u.
     then_nb (lib_call ''ax.get_data_ratio()'' [] (Inr ())) (\<lambda>ratio.
     lib_effect ''ax.set_aspect(ratio, adjustable=box)'' [] (\<lambda>s. s\<lparr>sc_aspect := True\<rparr>)))))))))))))"

subsection \<open>Nearest neighbours (cell 25)\<close>

text \<open>
  The state of the cell is the list of the figures made so far. A figure has its title
  (the number \<^verbatim>\<open>i + 1\<close> of \<^verbatim>\<open>Nearest Neighbor Plot {i + 1}\<close>) once \<^verbatim>\<open>suptitle\<close> has run, and
  its axes; an axes has its grid position, its title if one was set, the image shown in
  it once \<^verbatim>\<open>plt.imshow\<close> has run, and whether its axis lines were switched off. The
  calls act on the current figure and axes, which are the last made.
\<close>

record 'p axes_state =
  ax_position :: nat
  ax_title :: "string option"
  ax_image :: "'p image option"
  ax_off :: bool

record 'p figure_state =
  fg_number :: "nat option"
  fg_axes :: "'p axes_state list"

definition on_last :: "('a \<Rightarrow> 'a) \<Rightarrow> 'a list \<Rightarrow> 'a list" where
  "on_last f xs = (if xs = [] then [] else butlast xs @ [f (last xs)])"

definition on_current_axes ::
  "('p axes_state \<Rightarrow> 'p axes_state) \<Rightarrow> 'p figure_state list \<Rightarrow> 'p figure_state list" where
  "on_current_axes f figs = on_last (\<lambda>fig. fig\<lparr>fg_axes := on_last f (fg_axes fig)\<rparr>) figs"

definition get_image_as_np_array_nb ::
  "'p plt_env \<Rightarrow> nat list \<Rightarrow> string \<Rightarrow> ('p image, 's) nb" where
  "get_image_as_np_array_nb env occ filename =
     then_nb (lib_call ''Image.open(filename)'' occ (image_open env filename)) (\<lambda>img.
     lib_call ''np.asarray(img)'' occ (Inr img))"

definition get_image_as_np_array_with_frame_nb ::
  "'p plt_env \<Rightarrow> nat list \<Rightarrow> string \<Rightarrow> nat \<Rightarrow> ('p image, 's) nb" where
  "get_image_as_np_array_with_frame_nb env occ filename w =
     then_nb (get_image_as_np_array_nb env occ filename) (\<lambda>img.
     then_nb (lib_call ''ny, nx, _ = img.shape'' occ
                (case shape img of
                   [ny, nx, c] \<Rightarrow> Inr (ny, nx, c)
                 | _ \<Rightarrow> Inl ValueError)) (\<lambda>dims.
     then_nb (value_nb (fst dims)) (\<lambda>ny.
     then_nb (value_nb (fst (snd dims))) (\<lambda>nx.
     then_nb (value_nb (snd (snd dims))) (\<lambda>c.
     then_nb (lib_call ''np.zeros((w + ny + w, w + nx + w, 3))'' occ
                (Inr \<lparr>shape = [w + ny + w, w + nx + w, 3],
                      pixels = np_zeros env [w + ny + w, w + nx + w, 3], frame = 0\<rparr>)) (\<lambda>framed_img.
     then_nb (lib_call ''framed_img.astype(np.uint8)'' occ (Inr framed_img)) (\<lambda>framed_img.
     lib_call ''framed_img[w:-w, w:-w] = img'' occ
       (let rows = (if w = 0 then 0 else ny);
            cols = (if w = 0 then 0 else nx)
        in if (ny = rows \<or> ny = 1) \<and> (nx = cols \<or> nx = 1) \<and> (c = 3 \<or> c = 1)
           then Inr (if w = 0 then framed_img
                     else framed_img\<lparr>pixels := pixels img, frame := w\<rparr>)
           else Inl ValueError))))))))"

definition plot_nearest_neighbors_3x3_nb ::
  "'p plt_env \<Rightarrow> string list \<Rightarrow> embedding list \<Rightarrow> string \<Rightarrow> nat
     \<Rightarrow> (unit, 'p figure_state list) nb" where
  "plot_nearest_neighbors_3x3_nb env filenames embeddings example_image i =
     then_nb (lib_effect ''plt.figure()'' [i]
                (\<lambda>figs. figs @ [\<lparr>fg_number = None, fg_axes = []\<rparr>])) (\<lambda>u.
     then_nb (lib_effect ''fig.suptitle'' [i]
                (on_last (\<lambda>fig. fig\<lparr>fg_number := Some (i + 1)\<rparr>))) (\<lambda>u.
     then_nb (lib_call ''filenames.index(example_image)'' [i]
                (list_index filenames example_image)) (\<lambda>example_idx.
     then_nb (lib_call ''embeddings - embeddings[example_idx]'' [i]
                (case list_getitem embeddings example_idx of
                   Inl e \<Rightarrow> Inl e
                 | Inr c \<Rightarrow> Inr (map (\<lambda>e. map (\<lambda>ab. fst ab - snd ab) (zip e c)) embeddings))) (\<lambda>distances.
     then_nb (lib_call ''np.power(distances, 2).sum(-1).squeeze()'' [i]
                (Inr (map (\<lambda>row. sum_list (map (\<lambda>d. d\<^sup>2) row)) distances))) (\<lambda>distances.
     then_nb (lib_call ''np.argsort(distances)[:n_subplots]'' [i]
                (Inr (take n_subplots (np_argsort distances)))) (\<lambda>nearest_neighbors.
     for_nb (enumerate 0 nearest_neighbors) (\<lambda>op.
        then_nb (value_nb (fst op)) (\<lambda>plot_offset.
        then_nb (value_nb (snd op)) (\<lambda>plot_idx.
        then_nb (lib_effect ''fig.add_subplot(3, 3, plot_offset + 1)'' [i, plot_offset]
                   (on_last (\<lambda>fig. fig\<lparr>fg_axes := fg_axes fig @
                      [\<lparr>ax_position = plot_offset + 1, ax_title = None, ax_image = None,
                        ax_off = False\<rparr>]\<rparr>))) (\<lambda>u.
        then_nb (lib_call ''os.path.join(path_to_data, filenames[plot_idx])'' [i, plot_offset]
                   (case list_getitem filenames plot_idx of
                      Inl e \<Rightarrow> Inl e
                    | Inr f \<Rightarrow> Inr (os_path_join path_to_data f))) (\<lambda>fname.
        then_nb (if plot_offset = 0
                 then
                   then_nb (lib_effect ''ax.set_title'' [i, plot_offset]
                              (on_current_axes (\<lambda>ax. ax\<lparr>ax_title := Some ''Example Image''\<rparr>))) (\<lambda>u.
                   then_nb (get_image_as_np_array_with_frame_nb env [i, plot_offset] fname 5) (\<lambda>img.
                   lib_effect ''plt.imshow'' [i, plot_offset]
                     (on_current_axes (\<lambda>ax. ax\<lparr>ax_image := Some img\<rparr>))))
                 else
                   then_nb (get_image_as_np_array_nb env [i, plot_offset] fname) (\<lambda>img.
                   lib_effect ''plt.imshow'' [i, plot_offset]
                     (on_current_axes (\<lambda>ax. ax\<lparr>ax_image := Some img\<rparr>)))) (\<lambda>u.
        lib_effect ''plt.axis(off)'' [i, plot_offset]
          (on_current_axes (\<lambda>ax. ax\<lparr>ax_off := True\<rparr>))))))))))))))"

text \<open>The loop at the end of the cell.\<close>

definition plot_all_examples_nb ::
  "'p plt_env \<Rightarrow> string list \<Rightarrow> embedding list \<Rightarrow> (unit, 'p figure_state list) nb" where
  "plot_all_examples_nb env filenames embeddings =
     for_nb (enumerate 0 example_images) (\<lambda>ie.
       plot_nearest_neighbors_3x3_nb env filenames embeddings (snd ie) (fst ie))"

subsection \<open>What propagation means\<close>

text \<open>
  A run propagates its exceptions when
  \<^item> a call the table of faults makes raise did raise that exception;
  \<^item> no call before the last one raised;
  \<^item> if the run ends with an exception, it is the one the last call raised, and the state
    left behind is the state in which that call was made: nothing ran after the raise;
  \<^item> if the run ends with a value, no call raised.
  So an exception is never caught, replaced or followed by a recovery.
\<close>

definition propagated :: "faults \<Rightarrow> (py_error + 'a) \<times> 's \<times> 's call_entry list \<Rightarrow> bool" where
  "propagated F run =
     (let r = fst run; s = fst (snd run); tr = snd (snd run)
      in (\<forall>c\<in>set tr. \<forall>e. F (call_name c) (occurrence c) = Some e \<longrightarrow> raised c = Some e)
       \<and> (\<forall>c\<in>set (butlast tr). raised c = None)
       \<and> (case r of
             Inl e \<Rightarrow> tr \<noteq> [] \<and> raised (last tr) = Some e \<and> state_before (last tr) = s
           | Inr a \<Rightarrow> (\<forall>c\<in>set tr. raised c = None)))"


text \<open>
  With nothing in the table of faults, the run of \<open>p\<close> from the state \<open>s\<close> ends with \<open>r\<close>
  (a value, or the exception of a call on its arguments) in the state \<open>s'\<close>.
\<close>

definition ends :: "('a, 's) nb \<Rightarrow> 's \<Rightarrow> py_error + 'a \<Rightarrow> 's \<Rightarrow> bool" where
  "ends p s r s' = (fst (p no_faults s) = r \<and> fst (snd (p no_faults s)) = s')"

section \<open>Auxiliary definitions and concrete inputs\<close>

text \<open>
  The points of a list are far apart when each is at squared distance at least \<open>2e-3\<close>
  from every earlier one. The selection loop keeps \<^verbatim>\<open>shown_images\<close> far apart, and equal
  to the point \<open>(1, 1)\<close> followed by the positions of \<^verbatim>\<open>shown_images_idx\<close>.
\<close>

definition far_apart :: "point list \<Rightarrow> bool" where
  "far_apart S = (\<forall>k<length S. \<forall>j<k. 2 / 1000 \<le> sqdist (S ! k) (S ! j))"

definition scatter_inv :: "point list \<Rightarrow> point list \<times> nat list \<Rightarrow> bool" where
  "scatter_inv E st = (far_apart (fst st) \<and> fst st = (1, 1) # map ((!) E) (snd st))"

text \<open>
  The loss tensor of a batch \<^verbatim>\<open>(x0, x1)\<close> under a module, as the training step computes it.
\<close>

definition batch_loss ::
  "('x, 'g, 'gr, 'o) torch \<Rightarrow> ('x, 'g) SimSiam \<Rightarrow> 'x list \<times> 'x list \<Rightarrow> (real, 'g) tensor" where
  "batch_loss T m batch =
     tensor_rmul T (1 / 2)
       (tensor_add T
          (criterion T (fst (forward T m (fst batch))) (snd (forward T m (snd batch))))
          (criterion T (fst (forward T m (snd batch))) (snd (forward T m (fst batch)))))"

text \<open>
  An exponential moving average of weight \<open>0.9\<close>, spelled out: each new value \<open>x\<close> turns the
  average \<open>a\<close> into \<open>0.9 * a + 0.1 * x\<close>.
\<close>

definition ema :: "real list \<Rightarrow> real \<Rightarrow> real" where
  "ema xs a = fold (\<lambda>x a. 9 / 10 * a + 1 / 10 * x) xs a"

text \<open>
  The loss and the output standard deviation of each batch of a batch loop, in order,
  each under the module as it is when the batch is reached; and the same along the first
  \<open>n\<close> epochs of the training.
\<close>

fun step_history ::
  "('x, 'g, 'gr, 'o) torch \<Rightarrow> ('x list \<times> 'x list) list \<Rightarrow> ('x, 'g, 'gr, 'o) train_state
     \<Rightarrow> (real \<times> real) list" where
  "step_history T [] st = []"
| "step_history T (b # bs) st =
     (tdata (batch_loss T (model st) b), output_std (snd (forward T (model st) (fst b))))
       # step_history T bs (train_step T b st)"

definition train_history ::
  "('x, 'g, 'gr, 'o) torch \<Rightarrow> (nat \<Rightarrow> ('x list \<times> 'x list) list) \<Rightarrow> nat
     \<Rightarrow> ('x, 'g, 'gr, 'o) train_state \<Rightarrow> (real \<times> real) list" where
  "train_history T loader n st =
     concat (map (\<lambda>e. step_history T (loader e) (train T loader e st)) [0..<n])"

text \<open>
  An environment to run the plotting cells on: every file opens as a \<open>1 \<times> 1\<close> RGB image
  whose pixel data is the path it was read from, resizing changes nothing, the shuffle
  reverses the list, and an array of zeros has the pixel data \<open>zeros\<close>.
\<close>

definition demo_env :: "string plt_env" where
  "demo_env = \<lparr>image_open = (\<lambda>f. Inr \<lparr>shape = [1, 1, 3], pixels = f, frame = 0\<rparr>),
           resize = (\<lambda>img n. img), figsize0 = 6, shuffle = rev,
           np_zeros = (\<lambda>shape. ''zeros'')\<rparr>"


text \<open>
  A module and a library to run the training and embedding cells on. An image is a
  number \<open>x\<close>, the backbone gives it the feature map \<open>[[[x, 0]]]\<close> (so all predictions
  point the same way), the heads are the identity, the criterion is constantly \<open>-1\<close>,
  and the optimizer changes nothing.
\<close>

definition demo_model :: "(nat, unit) SimSiam" where
  "demo_model =
     \<lparr>backbone = (\<lambda>mode xs. \<lparr>tdata = map (\<lambda>x. [[[real x, 0]]]) xs, grad_fn = Some ()\<rparr>),
      projection_head = (\<lambda>mode t. t),
      prediction_head = (\<lambda>mode t. t),
      training = True\<rparr>"

definition demo_torch :: "(nat, unit, unit, unit) torch" where
  "demo_torch =
     \<lparr>view_backward = (\<lambda>g. g),
      add_backward = (\<lambda>a b. ()),
      mul_backward = (\<lambda>c g. g),
      criterion = (\<lambda>z p. \<lparr>tdata = - 1, grad_fn = grad_fn p\<rparr>),
      backward = (\<lambda>loss g. g),
      optimizer_step = (\<lambda>g om. om),
      optimizer_zero_grad = (\<lambda>g. g)\<rparr>"

text \<open>
  Two directory trees with images under \<^verbatim>\<open>path_to_data\<close> only: one with two files, one with
  \<open>128\<close> files named \<open>a\<close>, \<open>aa\<close>, \<open>aaa\<close>, ... (a full training batch). A collate function
  that augments nothing.
\<close>

definition demo_fs :: "nat filesystem" where
  "demo_fs dir = (if dir = path_to_data then [(''a.png'', 3), (''b.png'', 5)] else [])"

definition demo_fs128 :: "nat filesystem" where
  "demo_fs128 dir =
     (if dir = path_to_data then map (\<lambda>i. (replicate (Suc i) CHR ''a'', i)) [0..<128] else [])"

definition demo_collate :: "nat list \<Rightarrow> nat list \<times> nat list" where
  "demo_collate raws = (raws, raws)"


section \<open>Properties of the primitives\<close>

lemma for_each_Inr:
  "for_each body xs = Inr ys \<Longrightarrow>
     length ys = length xs \<and> (\<forall>k<length xs. body (xs ! k) = Inr (ys ! k))"
proof (induction xs arbitrary: ys)
  case Nil
  then show ?case by simp
next
  case (Cons x xs)
  from Cons.prems obtain y ys' where y: "body x = Inr y" and r: "for_each body xs = Inr ys'"
    and ys: "ys = y # ys'"
    by (auto split: sum.splits)
  from Cons.IH [OF r] have len: "length ys' = length xs"
    and nth: "\<forall>k<length xs. body (xs ! k) = Inr (ys' ! k)" by simp_all
  show ?case
  proof (intro conjI allI impI)
    show "length ys = length (x # xs)" using len ys by simp
  next
    fix k assume "k < length (x # xs)"
    then show "body ((x # xs) ! k) = Inr (ys ! k)"
      using y nth ys by (cases k) simp_all
  qed
qed

lemma list_index_Inr:
  "list_index xs x = Inr i \<Longrightarrow> i < length xs \<and> xs ! i = x \<and> (\<forall>j<i. xs ! j \<noteq> x)"
proof (induction xs arbitrary: i)
  case Nil
  then show ?case by simp
next
  case (Cons y ys)
  show ?case
  proof (cases "y = x")
    case True
    then show ?thesis using Cons.prems by simp
  next
    case False
    with Cons.prems obtain i' where r: "list_index ys x = Inr i'" and i: "i = Suc i'"
      by (auto split: sum.splits)
    from Cons.IH [OF r] have "i' < length ys" "ys ! i' = x" "\<forall>j<i'. ys ! j \<noteq> x"
      by simp_all
    then show ?thesis using False i by (auto simp add: nth_Cons split: nat.splits)
  qed
qed

lemma list_index_absent: "x \<notin> set xs \<Longrightarrow> list_index xs x = Inl ValueError"
  by (induction xs) auto

lemma list_index_present: "x \<in> set xs \<Longrightarrow> \<exists>i. list_index xs x = Inr i"
  by (induction xs) auto

section \<open>Properties of the rescaling\<close>

lemma unit_ratio_bounds:
  fixes x lo hi :: real
  assumes "lo \<le> x" and "x \<le> hi" and "lo < hi"
  shows "0 \<le> (x - lo) / (hi - lo)" and "(x - lo) / (hi - lo) \<le> 1"
  using assms by simp_all

lemma axis_rescaled_Min:
  fixes A :: "real set"
  assumes fin: "finite A" and ne: "A \<noteq> {}" and lt: "Min A < Max A"
  shows "Min ((\<lambda>x. (x - Min A) / (Max A - Min A)) ` A) = 0"
proof (rule Min_eqI)
  show "finite ((\<lambda>x. (x - Min A) / (Max A - Min A)) ` A)"
    using fin by (rule finite_imageI)
next
  fix y
  assume "y \<in> (\<lambda>x. (x - Min A) / (Max A - Min A)) ` A"
  then obtain x where x: "x \<in> A" and y: "y = (x - Min A) / (Max A - Min A)"
    by (rule imageE)
  have "Min A \<le> x" and "x \<le> Max A"
    using fin x by simp_all
  then show "0 \<le> y"
    unfolding y using lt by (rule unit_ratio_bounds(1))
next
  have "Min A \<in> A"
    using fin ne by (rule Min_in)
  then have "(Min A - Min A) / (Max A - Min A) \<in> (\<lambda>x. (x - Min A) / (Max A - Min A)) ` A"
    by (rule imageI)
  then show "0 \<in> (\<lambda>x. (x - Min A) / (Max A - Min A)) ` A"
    by simp
qed

lemma axis_rescaled_Max:
  fixes A :: "real set"
  assumes fin: "finite A" and ne: "A \<noteq> {}" and lt: "Min A < Max A"
  shows "Max ((\<lambda>x. (x - Min A) / (Max A - Min A)) ` A) = 1"
proof (rule Max_eqI)
  show "finite ((\<lambda>x. (x - Min A) / (Max A - Min A)) ` A)"
    using fin by (rule finite_imageI)
next
  fix y
  assume "y \<in> (\<lambda>x. (x - Min A) / (Max A - Min A)) ` A"
  then obtain x where x: "x \<in> A" and y: "y = (x - Min A) / (Max A - Min A)"
    by (rule imageE)
  have "Min A \<le> x" and "x \<le> Max A"
    using fin x by simp_all
  then show "y \<le> 1"
    unfolding y using lt by (rule unit_ratio_bounds(2))
next
  have "Max A \<in> A"
    using fin ne by (rule Max_in)
  then have "(Max A - Min A) / (Max A - Min A) \<in> (\<lambda>x. (x - Min A) / (Max A - Min A)) ` A"
    by (rule imageI)
  then show "1 \<in> (\<lambda>x. (x - Min A) / (Max A - Min A)) ` A"
    using lt by simp
qed

lemma axis_constant:
  fixes A :: "real set"
  assumes "finite A" and "Max A = Min A" and "x \<in> A"
  shows "x = Min A"
proof -
  have "Min A \<le> x" and "x \<le> Max A"
    using assms(1,3) by simp_all
  with assms(2) show ?thesis by simp
qed

lemma rescale_Inr:
  "E \<noteq> [] \<Longrightarrow> rescale E =
     Inr (map (\<lambda>p. (np_true_divide (fst p - Min (fst ` set E)) (Max (fst ` set E) - Min (fst ` set E)),
                     np_true_divide (snd p - Min (snd ` set E)) (Max (snd ` set E) - Min (snd ` set E)))) E)"
  by (simp add: rescale_def np_max_axis0_def np_min_axis0_def)

lemma rescale_nan_fst:
  assumes ne: "E \<noteq> []" and eq: "Max (fst ` set E) = Min (fst ` set E)"
  shows "\<exists>R. rescale E = Inr R \<and> length R = length E \<and> (\<forall>q\<in>set R. fst q = NaN)"
proof -
  let ?g = "\<lambda>p. (np_true_divide (fst p - Min (fst ` set E)) (Max (fst ` set E) - Min (fst ` set E)),
                  np_true_divide (snd p - Min (snd ` set E)) (Max (snd ` set E) - Min (snd ` set E)))"
  have c: "fst p = Min (fst ` set E)" if "p \<in> set E" for p
    using axis_constant [OF _ eq, of "fst p"] that by simp
  have "fst q = NaN" if "q \<in> set (map ?g E)" for q
  proof -
    from that obtain p where p: "p \<in> set E" and q: "q = ?g p"
      by auto
    show ?thesis unfolding q using eq c [OF p] by (simp add: np_true_divide_def)
  qed
  then have "rescale E = Inr (map ?g E) \<and> length (map ?g E) = length E
      \<and> (\<forall>q\<in>set (map ?g E). fst q = NaN)"
    using rescale_Inr [OF ne] by simp
  then show ?thesis by (rule exI)
qed

lemma rescale_nan_snd:
  assumes ne: "E \<noteq> []" and eq: "Max (snd ` set E) = Min (snd ` set E)"
  shows "\<exists>R. rescale E = Inr R \<and> length R = length E \<and> (\<forall>q\<in>set R. snd q = NaN)"
proof -
  let ?g = "\<lambda>p. (np_true_divide (fst p - Min (fst ` set E)) (Max (fst ` set E) - Min (fst ` set E)),
                  np_true_divide (snd p - Min (snd ` set E)) (Max (snd ` set E) - Min (snd ` set E)))"
  have c: "snd p = Min (snd ` set E)" if "p \<in> set E" for p
    using axis_constant [OF _ eq, of "snd p"] that by simp
  have "snd q = NaN" if "q \<in> set (map ?g E)" for q
  proof -
    from that obtain p where p: "p \<in> set E" and q: "q = ?g p"
      by auto
    show ?thesis unfolding q using eq c [OF p] by (simp add: np_true_divide_def)
  qed
  then have "rescale E = Inr (map ?g E) \<and> length (map ?g E) = length E
      \<and> (\<forall>q\<in>set (map ?g E). snd q = NaN)"
    using rescale_Inr [OF ne] by simp
  then show ?thesis by (rule exI)
qed

lemma rescale_finite:
  assumes ne: "E \<noteq> []"
    and x: "Min (fst ` set E) < Max (fst ` set E)"
    and y: "Min (snd ` set E) < Max (snd ` set E)"
  shows "rescale E = Inr (map finite_point
           (map (\<lambda>p. ((fst p - Min (fst ` set E)) / (Max (fst ` set E) - Min (fst ` set E)),
                       (snd p - Min (snd ` set E)) / (Max (snd ` set E) - Min (snd ` set E)))) E))"
  using x y unfolding rescale_Inr [OF ne]
  by (simp add: np_true_divide_def finite_point_def)

text \<open>
  Claim C8. The rescaling divides by the per-axis range \<open>M - m\<close> with no guard. When on
  both axes the maximum strictly exceeds the minimum, every rescaled coordinate is a
  finite number in \<open>[0, 1]\<close>, and on each axis the least rescaled coordinate is exactly
  \<open>0\<close> and the greatest exactly \<open>1\<close>. When on an axis the maximum equals the minimum
  (a single embedding, for instance), every division on that axis is \<open>0 / 0\<close>: the
  whole column is \<open>nan\<close>, and nothing is raised.
\<close>

theorem rescale_unit_square:
  "(E \<noteq> [] \<and> Min (fst ` set E) < Max (fst ` set E) \<and> Min (snd ` set E) < Max (snd ` set E) \<longrightarrow>
     (\<exists>R. rescale E = Inr (map finite_point R) \<and> length R = length E
        \<and> (\<forall>p\<in>set R. 0 \<le> fst p \<and> fst p \<le> 1 \<and> 0 \<le> snd p \<and> snd p \<le> 1)
        \<and> Min (fst ` set R) = 0 \<and> Max (fst ` set R) = 1
        \<and> Min (snd ` set R) = 0 \<and> Max (snd ` set R) = 1))
   \<and> (E \<noteq> [] \<and> Max (fst ` set E) = Min (fst ` set E) \<longrightarrow>
     (\<exists>R. rescale E = Inr R \<and> length R = length E \<and> (\<forall>q\<in>set R. fst q = NaN)))
   \<and> (E \<noteq> [] \<and> Max (snd ` set E) = Min (snd ` set E) \<longrightarrow>
     (\<exists>R. rescale E = Inr R \<and> length R = length E \<and> (\<forall>q\<in>set R. snd q = NaN)))"
proof (intro conjI impI)
  assume a: "E \<noteq> [] \<and> Min (fst ` set E) < Max (fst ` set E) \<and> Min (snd ` set E) < Max (snd ` set E)"
  let ?X = "fst ` set E" and ?Y = "snd ` set E"
  let ?R = "map (\<lambda>p. ((fst p - Min ?X) / (Max ?X - Min ?X),
                       (snd p - Min ?Y) / (Max ?Y - Min ?Y))) E"
  have fin: "finite ?X" "finite ?Y" by simp_all
  have ne: "?X \<noteq> {}" "?Y \<noteq> {}" using a by simp_all
  have fstR: "fst ` set ?R = (\<lambda>x. (x - Min ?X) / (Max ?X - Min ?X)) ` ?X"
    by (simp add: image_image)
  have sndR: "snd ` set ?R = (\<lambda>x. (x - Min ?Y) / (Max ?Y - Min ?Y)) ` ?Y"
    by (simp add: image_image)
  have 1: "rescale E = Inr (map finite_point ?R)"
    using a by (intro rescale_finite) simp_all
  have 2: "Min (fst ` set ?R) = 0" "Max (fst ` set ?R) = 1"
    unfolding fstR using axis_rescaled_Min [OF fin(1) ne(1)] axis_rescaled_Max [OF fin(1) ne(1)] a
    by blast+
  have 3: "Min (snd ` set ?R) = 0" "Max (snd ` set ?R) = 1"
    unfolding sndR using axis_rescaled_Min [OF fin(2) ne(2)] axis_rescaled_Max [OF fin(2) ne(2)] a
    by blast+
  have 4: "0 \<le> fst p \<and> fst p \<le> 1 \<and> 0 \<le> snd p \<and> snd p \<le> 1" if "p \<in> set ?R" for p
  proof -
    have "fst p \<in> fst ` set ?R" "snd p \<in> snd ` set ?R"
      using that by (rule imageI)+
    then have "Min (fst ` set ?R) \<le> fst p" "fst p \<le> Max (fst ` set ?R)"
      "Min (snd ` set ?R) \<le> snd p" "snd p \<le> Max (snd ` set ?R)"
      by (simp_all only: Min_le Max_ge List.finite_set finite_imageI)
    then show ?thesis unfolding 2 3 by simp
  qed
  have "rescale E = Inr (map finite_point ?R) \<and> length ?R = length E
        \<and> (\<forall>p\<in>set ?R. 0 \<le> fst p \<and> fst p \<le> 1 \<and> 0 \<le> snd p \<and> snd p \<le> 1)
        \<and> Min (fst ` set ?R) = 0 \<and> Max (fst ` set ?R) = 1
        \<and> Min (snd ` set ?R) = 0 \<and> Max (snd ` set ?R) = 1"
    using 1 2 3 4 by (intro conjI ballI) simp_all
  then show "\<exists>R. rescale E = Inr (map finite_point R) \<and> length R = length E
        \<and> (\<forall>p\<in>set R. 0 \<le> fst p \<and> fst p \<le> 1 \<and> 0 \<le> snd p \<and> snd p \<le> 1)
        \<and> Min (fst ` set R) = 0 \<and> Max (fst ` set R) = 1
        \<and> Min (snd ` set R) = 0 \<and> Max (snd ` set R) = 1"
    by (rule exI)
next
  assume "E \<noteq> [] \<and> Max (fst ` set E) = Min (fst ` set E)"
  then show "\<exists>R. rescale E = Inr R \<and> length R = length E \<and> (\<forall>q\<in>set R. fst q = NaN)"
    by (elim conjE) (rule rescale_nan_fst)
next
  assume "E \<noteq> [] \<and> Max (snd ` set E) = Min (snd ` set E)"
  then show "\<exists>R. rescale E = Inr R \<and> length R = length E \<and> (\<forall>q\<in>set R. snd q = NaN)"
    by (elim conjE) (rule rescale_nan_snd)
qed

theorem rescale_unit_square_witness:
  "rescale [(0, 0), (2, 4), (1, 3)] = Inr (map finite_point [(0, 0), (1, 1), (1/2, 3/4)])
   \<and> rescale [(3, 5), (4, 5)] = Inr [(Finite 0, NaN), (Finite 1, NaN)]
   \<and> (\<exists>R. rescale [(3, 5)] = Inr R \<and> length R = 1 \<and> fst (hd R) = NaN \<and> snd (hd R) = NaN)
   \<and> (\<exists>R. rescale [(0, 0), (2, 4), (1, 3)] = Inr (map finite_point R)
         \<and> Min (fst ` set R) = 0 \<and> Max (fst ` set R) = 1
         \<and> Min (snd ` set R) = 0 \<and> Max (snd ` set R) = 1)"
proof -
  have d: "\<exists>R. rescale [(0, 0), (2, 4), (1, 3)] = Inr (map finite_point R)
         \<and> Min (fst ` set R) = 0 \<and> Max (fst ` set R) = 1
         \<and> Min (snd ` set R) = 0 \<and> Max (snd ` set R) = 1"
    using rescale_unit_square [of "[(0, 0), (2, 4), (1, 3)]"] by simp blast
  have a: "rescale [(0, 0), (2, 4), (1, 3)] = Inr (map finite_point [(0, 0), (1, 1), (1/2, 3/4)])"
    by (simp add: rescale_def np_max_axis0_def np_min_axis0_def np_true_divide_def finite_point_def)
  have b: "rescale [(3, 5), (4, 5)] = Inr [(Finite 0, NaN), (Finite 1, NaN)]"
    by (simp add: rescale_def np_max_axis0_def np_min_axis0_def np_true_divide_def)
  have c: "\<exists>R. rescale [(3, 5)] = Inr R \<and> length R = 1 \<and> fst (hd R) = NaN \<and> snd (hd R) = NaN"
    using rescale_unit_square [of "[(3, 5)]"] by (auto simp add: length_Suc_conv)
  show ?thesis using a b c d by blast
qed

section \<open>Properties of the scatter plot\<close>

lemma far_apart_snoc:
  assumes "far_apart S" and "\<forall>s\<in>set S. 2 / 1000 \<le> sqdist p s"
  shows "far_apart (S @ [p])"
  unfolding far_apart_def
proof (intro allI impI)
  fix k j assume k: "k < length (S @ [p])" and j: "j < k"
  show "2 / 1000 \<le> sqdist ((S @ [p]) ! k) ((S @ [p]) ! j)"
  proof (cases "k < length S")
    case True
    then show ?thesis using assms(1) j by (simp add: far_apart_def nth_append)
  next
    case False
    then have kk: "k = length S" using k by simp
    have "S ! j \<in> set S" using j kk by simp
    then show ?thesis using assms(2) j kk by (simp add: nth_append)
  qed
qed

lemma scatter_step_skip:
  "Min (set (map (sqdist (E ! i)) (fst st))) < 2 / 1000 \<Longrightarrow> scatter_step E i st = st"
  by (simp only: scatter_step_def Let_def if_True)

lemma scatter_step_take:
  "\<not> Min (set (map (sqdist (E ! i)) (fst st))) < 2 / 1000 \<Longrightarrow>
     scatter_step E i st = (fst st @ [E ! i], snd st @ [i])"
  by (simp only: scatter_step_def Let_def if_False)

lemma scatter_step_inv:
  assumes inv: "scatter_inv E st"
  shows "scatter_inv E (scatter_step E i st)"
proof (cases "Min (set (map (sqdist (E ! i)) (fst st))) < 2 / 1000")
  case True
  then show ?thesis using inv by (simp only: scatter_step_skip)
next
  case False
  have fin: "finite (set (map (sqdist (E ! i)) (fst st)))" by simp
  have "2 / 1000 \<le> sqdist (E ! i) s" if "s \<in> set (fst st)" for s
  proof -
    have "sqdist (E ! i) s \<in> set (map (sqdist (E ! i)) (fst st))" using that by simp
    then have "Min (set (map (sqdist (E ! i)) (fst st))) \<le> sqdist (E ! i) s"
      using fin by (rule Min_le [rotated])
    then show ?thesis using False by linarith
  qed
  then have "\<forall>s\<in>set (fst st). 2 / 1000 \<le> sqdist (E ! i) s" by blast
  with inv have far: "far_apart (fst st @ [E ! i])"
    unfolding scatter_inv_def by (intro far_apart_snoc) blast+
  have eq: "fst st @ [E ! i] = (1, 1) # map ((!) E) (snd st @ [i])"
    using inv unfolding scatter_inv_def by simp
  show ?thesis
    unfolding scatter_step_take [OF False] scatter_inv_def fst_conv snd_conv
    using far eq by blast
qed

lemma fold_scatter_inv:
  "scatter_inv E st \<Longrightarrow> scatter_inv E (fold (scatter_step E) it st)"
proof (induction it arbitrary: st)
  case Nil
  then show ?case by simp
next
  case (Cons i it)
  have "scatter_inv E (scatter_step E i st)"
    using Cons.prems by (rule scatter_step_inv)
  then have "scatter_inv E (fold (scatter_step E) it (scatter_step E i st))"
    by (rule Cons.IH)
  then show ?case by simp
qed

lemma select_shown_inv: "scatter_inv E (select_shown E it)"
  unfolding select_shown_def
  by (rule fold_scatter_inv) (simp add: scatter_inv_def far_apart_def)

lemma select_shown_far:
  assumes "k < length (snd (select_shown E it))"
  shows "2 / 1000 \<le> sqdist (E ! (snd (select_shown E it) ! k)) (1, 1)"
    and "j < k \<Longrightarrow> 2 / 1000 \<le> sqdist (E ! (snd (select_shown E it) ! k)) (E ! (snd (select_shown E it) ! j))"
proof -
  let ?S = "fst (select_shown E it)" and ?I = "snd (select_shown E it)"
  have far: "far_apart ?S" and S: "?S = (1, 1) # map ((!) E) ?I"
    using select_shown_inv [of E it] unfolding scatter_inv_def by blast+
  have len: "Suc k < length ?S" using assms by (subst S) simp
  have S0: "?S ! 0 = (1, 1)" by (subst S) simp
  have Sk: "?S ! Suc k = E ! (?I ! k)" using assms by (subst S) simp
  have "2 / 1000 \<le> sqdist (?S ! Suc k) (?S ! 0)"
    using far len unfolding far_apart_def by blast
  then show "2 / 1000 \<le> sqdist (E ! (?I ! k)) (1, 1)"
    unfolding S0 Sk .
  assume jk: "j < k"
  have Sj: "?S ! Suc j = E ! (?I ! j)" using assms jk by (subst S) simp
  have "2 / 1000 \<le> sqdist (?S ! Suc k) (?S ! Suc j)"
    using far len jk unfolding far_apart_def by (meson Suc_mono)
  then show "2 / 1000 \<le> sqdist (E ! (?I ! k)) (E ! (?I ! j))"
    unfolding Sk Sj .
qed

lemma sqdist_commute: "sqdist p q = sqdist q p"
  by (simp add: sqdist_def power2_commute)

text \<open>
  Claim C10. In \<^verbatim>\<open>get_scatter_plot_with_thumbnails\<close>, any two selected indices have
  positions at squared distance at least \<open>2e-3\<close>; an index whose position is within squared
  distance \<open>2e-3\<close> of the point \<open>(1, 1)\<close>, which starts \<^verbatim>\<open>shown_images\<close>, is never
  selected; and when the function returns, its annotation boxes sit at the positions of the
  selected indices, so they are pairwise that far apart and that far from \<open>(1, 1)\<close>.
\<close>

theorem scatter_thumbnails_separated:
  assumes perm: "distinct (shuffle env [0..<length E]) \<and> set (shuffle env [0..<length E]) = {..<length E}"
  shows "(\<forall>k<length (snd (select_shown E (shuffle env [0..<length E]))). \<forall>j<k.
            2 / 1000 \<le> sqdist (E ! (snd (select_shown E (shuffle env [0..<length E])) ! j))
                               (E ! (snd (select_shown E (shuffle env [0..<length E])) ! k)))
       \<and> (\<forall>i<length E. sqdist (E ! i) (1, 1) < 2 / 1000 \<longrightarrow>
            i \<notin> set (snd (select_shown E (shuffle env [0..<length E]))))
       \<and> (\<forall>boxes. get_scatter_plot_with_thumbnails env E filenames = Inr boxes \<longrightarrow>
            map snd boxes = map ((!) E) (snd (select_shown E (shuffle env [0..<length E])))
            \<and> (\<forall>k<length boxes. \<forall>j<k. 2 / 1000 \<le> sqdist (snd (boxes ! j)) (snd (boxes ! k)))
            \<and> (\<forall>b\<in>set boxes. 2 / 1000 \<le> sqdist (snd b) (1, 1)))"
proof -
  let ?I = "snd (select_shown E (shuffle env [0..<length E]))"
  have pair: "2 / 1000 \<le> sqdist (E ! (?I ! j)) (E ! (?I ! k))" if "k < length ?I" "j < k" for j k
    using select_shown_far(2) [OF that] by (simp only: sqdist_commute)
  have sentinel: "2 / 1000 \<le> sqdist (E ! (?I ! k)) (1, 1)" if "k < length ?I" for k
    using select_shown_far(1) [OF that] .
  have never: "i \<notin> set ?I" if "sqdist (E ! i) (1, 1) < 2 / 1000" for i
  proof
    assume "i \<in> set ?I"
    then obtain k where "k < length ?I" and "?I ! k = i"
      by (auto simp add: in_set_conv_nth)
    then have "2 / 1000 \<le> sqdist (E ! i) (1, 1)" using sentinel by blast
    with that show False by linarith
  qed
  have boxes: "map snd boxes = map ((!) E) ?I
      \<and> (\<forall>k<length boxes. \<forall>j<k. 2 / 1000 \<le> sqdist (snd (boxes ! j)) (snd (boxes ! k)))
      \<and> (\<forall>b\<in>set boxes. 2 / 1000 \<le> sqdist (snd b) (1, 1))"
    if ok: "get_scatter_plot_with_thumbnails env E filenames = Inr boxes" for boxes
  proof -
    let ?body = "\<lambda>idx. let thumbnail_size = nat \<lfloor>figsize0 env * 2\<rfloor>
           in case list_getitem filenames idx of
                Inl e \<Rightarrow> Inl e
              | Inr f \<Rightarrow>
                  (case image_open env (os_path_join path_to_data f) of
                     Inl e \<Rightarrow> Inl e
                   | Inr img \<Rightarrow> Inr (resize env img thumbnail_size, E ! idx))"
    have fe: "for_each ?body ?I = Inr boxes"
      using ok by (simp only: get_scatter_plot_with_thumbnails_def Let_def)
    have len: "length boxes = length ?I"
      and nth: "\<forall>k<length ?I. ?body (?I ! k) = Inr (boxes ! k)"
      using for_each_Inr [OF fe] by blast+
    have pos: "snd (boxes ! k) = E ! (?I ! k)" if "k < length ?I" for k
      using nth [rule_format, OF that] by (auto simp add: Let_def split: sum.splits dest: sym)
    have m: "map snd boxes = map ((!) E) ?I"
      using len pos by (intro nth_equalityI) simp_all
    have p: "\<forall>k<length boxes. \<forall>j<k. 2 / 1000 \<le> sqdist (snd (boxes ! j)) (snd (boxes ! k))"
      using pair pos len by simp
    have "2 / 1000 \<le> sqdist (snd b) (1, 1)" if "b \<in> set boxes" for b
    proof -
      from that obtain k where "k < length boxes" and "boxes ! k = b"
        by (auto simp add: in_set_conv_nth)
      then show ?thesis using sentinel [of k] pos [of k] len by simp
    qed
    with m p show ?thesis by blast
  qed
  show ?thesis using pair never boxes by blast
qed

lemma select_shown_demo: "select_shown [(0, 0), (1/100, 1/100), (1, 1), (1/2, 1/2)] [3,2,1,0] = ([(1, 1), (1 / 2, 1 / 2), (1 / 100, 1 / 100)], [3, 1])"
  by (simp add: select_shown_def scatter_step_def sqdist_def power2_eq_square)

theorem scatter_thumbnails_separated_witness:
  "get_scatter_plot_with_thumbnails demo_env [(0, 0), (1/100, 1/100), (1, 1), (1/2, 1/2)]
       [''a'', ''b'', ''c'', ''d'']
     = Inr [(\<lparr>shape = [1, 1, 3], pixels = ''/datasets/sentinel-2-italy-v1/d'', frame = 0\<rparr>, (1/2, 1/2)),
            (\<lparr>shape = [1, 1, 3], pixels = ''/datasets/sentinel-2-italy-v1/b'', frame = 0\<rparr>, (1/100, 1/100))]
   \<and> 2 / 1000 \<le> sqdist (1/2, 1/2) (1/100, 1/100)
   \<and> 2 / 1000 \<le> sqdist (1/2, 1/2) (1, 1)
   \<and> 2 < length [(0, 0), (1/100, 1/100), (1, 1), (1/2, 1/2) :: point]
   \<and> sqdist ([(0, 0), (1/100, 1/100), (1, 1), (1/2, 1/2)] ! 2) (1, 1) < 2 / 1000
   \<and> 2 \<notin> set (snd (select_shown [(0, 0), (1/100, 1/100), (1, 1), (1/2, 1/2)]
                      (shuffle demo_env [0..<length [(0, 0), (1/100, 1/100), (1, 1), (1/2, 1/2) :: point]])))"
proof -
  let ?E = "[(0, 0), (1/100, 1/100), (1, 1), (1/2, 1/2)] :: point list"
  have sh: "shuffle demo_env [0..<length ?E] = [3, 2, 1, 0]"
    by (simp add: demo_env_def upt_conv_Cons)
  have perm: "distinct (shuffle demo_env [0..<length ?E]) \<and> set (shuffle demo_env [0..<length ?E]) = {..<length ?E}"
    unfolding sh by (simp add: lessThan_Suc numeral_eq_Suc insert_commute)
  have run: "get_scatter_plot_with_thumbnails demo_env ?E [''a'', ''b'', ''c'', ''d'']
     = Inr [(\<lparr>shape = [1, 1, 3], pixels = ''/datasets/sentinel-2-italy-v1/d'', frame = 0\<rparr>, (1/2, 1/2)),
            (\<lparr>shape = [1, 1, 3], pixels = ''/datasets/sentinel-2-italy-v1/b'', frame = 0\<rparr>, (1/100, 1/100))]"
    unfolding get_scatter_plot_with_thumbnails_def sh Let_def select_shown_demo snd_conv
    by (simp add: demo_env_def list_getitem_def os_path_join_def path_to_data_def)
  have near: "sqdist (?E ! 2) (1, 1) < 2 / 1000"
    by (simp add: sqdist_def)
  note inst = scatter_thumbnails_separated [OF perm, of "[''a'', ''b'', ''c'', ''d'']"]
  from inst have a: "2 \<notin> set (snd (select_shown ?E (shuffle demo_env [0..<length ?E])))"
    using near by simp
  from inst run have b: "2 / 1000 \<le> sqdist (1/2, 1/2) (1/100, 1/100)
      \<and> 2 / 1000 \<le> sqdist (1/2, 1/2) (1, 1)"
    by (simp add: sqdist_def power2_eq_square)
  show ?thesis using run near a b by simp
qed

section \<open>Properties of the nearest-neighbour plot\<close>

lemma sq_distances_length: "length (sq_distances es c) = length es"
  by (simp add: sq_distances_def)

lemma sum_sq_nonneg: "(0::real) \<le> sum_list (map (\<lambda>ab. (fst ab - snd ab)\<^sup>2) xs)"
  by (rule sum_list_nonneg) auto

lemma sq_distances_nonneg: "i < length es \<Longrightarrow> 0 \<le> sq_distances es c ! i"
  by (simp add: sq_distances_def sum_sq_nonneg)

lemma sum_sq_self: "sum_list (map (\<lambda>ab. (fst ab - snd ab)\<^sup>2) (zip e e)) = (0::real)"
  by (induction e) simp_all

lemma sq_distances_self: "i < length es \<Longrightarrow> sq_distances es (es ! i) ! i = 0"
  by (simp add: sq_distances_def sum_sq_self)

lemma np_argsort_props:
  "length (np_argsort ds) = length ds"
  "distinct (np_argsort ds)"
  "set (np_argsort ds) = {..<length ds}"
  "sorted (map (\<lambda>i. ds ! i) (np_argsort ds))"
  by (auto simp add: np_argsort_def)

lemma sorted_take_le_rest:
  assumes "sorted (map f xs)" and "i \<in> set (take k xs)" and "j \<in> set xs" and "j \<notin> set (take k xs)"
  shows "f i \<le> f j"
proof -
  have "j \<in> set (drop k xs)"
    using assms(3,4) by (metis Un_iff append_take_drop_id set_append)
  moreover have "sorted (map f (take k xs) @ map f (drop k xs))"
    using assms(1) by (simp flip: map_append)
  ultimately show ?thesis
    using assms(2) by (auto simp add: sorted_append)
qed

lemma sorted_hd_le:
  assumes "sorted (map f xs)" and "j \<in> set xs"
  shows "f (hd xs) \<le> f j"
  using assms by (cases xs) auto

lemma plot_subplots:
  assumes nn: "nearest_neighbors filenames embeddings example_image = Inr nn"
    and fig: "plot_nearest_neighbors_3x3 env filenames embeddings example_image i = Inr fig"
  shows "fig_number fig = i + 1 \<and> length (subplots fig) = length nn
    \<and> (\<forall>k<length nn. position (subplots fig ! k) = k + 1
         \<and> title (subplots fig ! k) = (if k = 0 then Some ''Example Image'' else None)
         \<and> (k = 0 \<longrightarrow> frame (shown (subplots fig ! k)) = 5)
         \<and> nn ! k < length filenames
         \<and> (\<exists>img. image_open env (os_path_join path_to_data (filenames ! (nn ! k))) = Inr img
               \<and> pixels (shown (subplots fig ! k)) = pixels img
               \<and> (k \<noteq> 0 \<longrightarrow> shown (subplots fig ! k) = img)))"
proof -
  let ?body = "\<lambda>op. let plot_offset = fst op; plot_idx = snd op
                  in case list_getitem filenames plot_idx of
                       Inl e \<Rightarrow> Inl e
                     | Inr f \<Rightarrow>
                         (let fname = os_path_join path_to_data f
                          in if plot_offset = 0
                             then (case get_image_as_np_array_with_frame env fname 5 of
                                     Inl e \<Rightarrow> Inl e
                                   | Inr img \<Rightarrow>
                                       Inr \<lparr>position = plot_offset + 1,
                                            title = Some ''Example Image'', shown = img\<rparr>)
                             else (case get_image_as_np_array env fname of
                                     Inl e \<Rightarrow> Inl e
                                   | Inr img \<Rightarrow>
                                       Inr \<lparr>position = plot_offset + 1,
                                            title = None, shown = img\<rparr>))"
  from fig nn obtain axes where fe: "for_each ?body (enumerate 0 nn) = Inr axes"
    and f: "fig = \<lparr>fig_number = i + 1, subplots = axes\<rparr>"
    by (auto simp add: plot_nearest_neighbors_3x3_def split: sum.splits)
  have len: "length axes = length nn"
    and nth: "\<forall>k<length nn. ?body (enumerate 0 nn ! k) = Inr (axes ! k)"
    using for_each_Inr [OF fe] by simp_all
  have each: "position (axes ! k) = k + 1
         \<and> title (axes ! k) = (if k = 0 then Some ''Example Image'' else None)
         \<and> (k = 0 \<longrightarrow> frame (shown (axes ! k)) = 5)
         \<and> nn ! k < length filenames
         \<and> (\<exists>img. image_open env (os_path_join path_to_data (filenames ! (nn ! k))) = Inr img
               \<and> pixels (shown (axes ! k)) = pixels img
               \<and> (k \<noteq> 0 \<longrightarrow> shown (axes ! k) = img))" if k: "k < length nn" for k
  proof -
    have b: "?body (k, nn ! k) = Inr (axes ! k)"
      using nth k by (simp add: nth_enumerate_eq)
    then have r: "nn ! k < length filenames"
      by (auto simp add: list_getitem_def Let_def split: if_splits)
    show ?thesis
    proof (cases "k = 0")
      case True
      from b r True obtain img where
        o: "get_image_as_np_array_with_frame env (os_path_join path_to_data (filenames ! (nn ! k))) 5 = Inr img"
        and a: "axes ! k = \<lparr>position = 1, title = Some ''Example Image'', shown = img\<rparr>"
        by (auto simp add: list_getitem_def Let_def split: sum.splits)
      from o obtain raw where
        "image_open env (os_path_join path_to_data (filenames ! (nn ! k))) = Inr raw"
        "pixels img = pixels raw" "frame img = 5"
        by (auto simp add: get_image_as_np_array_with_frame_def get_image_as_np_array_def Let_def
            split: sum.splits list.splits if_splits)
      then show ?thesis using a r True by simp
    next
      case False
      from b r False obtain img where
        o: "get_image_as_np_array env (os_path_join path_to_data (filenames ! (nn ! k))) = Inr img"
        and a: "axes ! k = \<lparr>position = k + 1, title = None, shown = img\<rparr>"
        by (auto simp add: list_getitem_def Let_def split: sum.splits)
      from o have "image_open env (os_path_join path_to_data (filenames ! (nn ! k))) = Inr img"
        by (auto simp add: get_image_as_np_array_def split: sum.splits)
      then show ?thesis using a r False by simp
    qed
  qed
  show ?thesis using f len each by simp
qed

lemma nearest_neighbors_props:
  assumes ok: "nearest_neighbors filenames embeddings example_image = Inr nn"
  shows "\<exists>example_idx.
      list_index filenames example_image = Inr example_idx
    \<and> example_idx < length embeddings
    \<and> length nn = min 9 (length embeddings)
    \<and> distinct nn \<and> set nn \<subseteq> {..<length embeddings}
    \<and> sorted (map (\<lambda>i. sq_distances embeddings (embeddings ! example_idx) ! i) nn)
    \<and> (\<forall>i\<in>set nn. \<forall>j<length embeddings. j \<notin> set nn \<longrightarrow>
          sq_distances embeddings (embeddings ! example_idx) ! i
            \<le> sq_distances embeddings (embeddings ! example_idx) ! j)
    \<and> nn \<noteq> [] \<and> sq_distances embeddings (embeddings ! example_idx) ! (hd nn) = 0
    \<and> ((\<forall>j<length embeddings. j \<noteq> example_idx \<longrightarrow>
           sq_distances embeddings (embeddings ! example_idx) ! j \<noteq> 0) \<longrightarrow> hd nn = example_idx)"
proof -
  from ok obtain example_idx where idx: "list_index filenames example_image = Inr example_idx"
    by (auto simp add: nearest_neighbors_def split: sum.splits)
  from ok idx have lt: "example_idx < length embeddings"
    by (auto simp add: nearest_neighbors_def list_getitem_def split: sum.splits if_splits)
  let ?ds = "sq_distances embeddings (embeddings ! example_idx)"
  let ?srt = "np_argsort ?ds"
  have nn: "nn = take 9 ?srt"
    using ok idx lt by (simp add: nearest_neighbors_def list_getitem_def n_subplots_def)
  have len_ds: "length ?ds = length embeddings" by (rule sq_distances_length)
  have len: "length nn = min 9 (length embeddings)"
    unfolding nn by (simp add: np_argsort_props(1) len_ds min.commute)
  have dist: "distinct nn" unfolding nn by (simp add: np_argsort_props(2))
  have sub: "set nn \<subseteq> {..<length embeddings}"
    unfolding nn using set_take_subset [of 9 ?srt] np_argsort_props(3) [of ?ds] len_ds by simp
  have srt: "sorted (map (\<lambda>i. ?ds ! i) ?srt)" by (rule np_argsort_props(4))
  have srt_nn: "sorted (map (\<lambda>i. ?ds ! i) nn)"
    unfolding nn take_map [symmetric] using srt by (rule sorted_wrt_take)
  have least: "?ds ! i \<le> ?ds ! j" if "i \<in> set nn" "j < length embeddings" "j \<notin> set nn" for i j
  proof -
    have "j \<in> set ?srt" using that(2) np_argsort_props(3) [of ?ds] len_ds by simp
    then show ?thesis
      using sorted_take_le_rest [OF srt, of i 9 j] that(1,3) unfolding nn by blast
  qed
  have ne: "nn \<noteq> []" using len lt by auto
  have hd_nn: "hd nn = hd ?srt" unfolding nn using ne by (simp add: nn)
  have ex_in: "example_idx \<in> set ?srt"
    using lt np_argsort_props(3) [of ?ds] len_ds by simp
  have "?ds ! (hd ?srt) \<le> ?ds ! example_idx"
    using sorted_hd_le [OF srt ex_in] .
  moreover have "?ds ! example_idx = 0" using lt by (rule sq_distances_self)
  moreover have hd_lt: "hd nn < length embeddings"
    using sub hd_in_set [OF ne] by auto
  then have "0 \<le> ?ds ! (hd nn)" by (rule sq_distances_nonneg)
  ultimately have zero: "?ds ! (hd nn) = 0" unfolding hd_nn by simp
  have uniq: "hd nn = example_idx"
    if "\<forall>j<length embeddings. j \<noteq> example_idx \<longrightarrow> ?ds ! j \<noteq> 0"
    using that zero hd_lt by blast
  show ?thesis
    using idx lt len dist sub srt_nn least ne zero uniq by blast
qed

lemma tie_nearest_neighbors:
  "nearest_neighbors [''a'', ''b'', ''c'', ''d'', ''e'', ''f'', ''g'', ''h'', ''i'']
     [[0], [0], [1], [2], [3], [4], [5], [6], [7]] ''b'' = Inr [0, 1, 2, 3, 4, 5, 6, 7, 8]"
  by (simp add: nearest_neighbors_def list_getitem_def sq_distances_def np_argsort_def
      n_subplots_def upt_conv_Cons)

text \<open>
  Claim C5. The claim has \<^verbatim>\<open>plot_nearest_neighbors_3x3\<close> select the nine indices nearest to
  the example image, in ascending order of distance, and show the example image itself in
  the first position of the grid. The code selects by distance only
  (\<^verbatim>\<open>np.argsort(distances)[:n_subplots]\<close>) and nothing puts the example first: an image with
  the same embedding as the example and a smaller index comes before it. On the nine files
  \<open>a\<close>, ..., \<open>i\<close> with the embeddings \<open>[0], [0], [1], [2], ..., [7]\<close> and the example \<open>b\<close>
  (index \<open>1\<close>), the squared distances are \<open>0, 0, 1, 4, ..., 49\<close>, the nine indices selected
  are \<open>0, 1, ..., 8\<close> in this order, and the first subplot, framed and titled
  \<^verbatim>\<open>Example Image\<close>, shows the file \<open>a\<close>; the example \<open>b\<close> is in the second position.
\<close>

theorem nearest_neighbors_example_not_first:
  "list_index [''a'', ''b'', ''c'', ''d'', ''e'', ''f'', ''g'', ''h'', ''i''] ''b'' = Inr 1
   \<and> sq_distances [[0], [0], [1], [2], [3], [4], [5], [6], [7]] [0]
       = [0, 0, 1, 4, 9, 16, 25, 36, 49]
   \<and> nearest_neighbors [''a'', ''b'', ''c'', ''d'', ''e'', ''f'', ''g'', ''h'', ''i'']
       [[0], [0], [1], [2], [3], [4], [5], [6], [7]] ''b'' = Inr [0, 1, 2, 3, 4, 5, 6, 7, 8]
   \<and> hd [0, 1, 2, 3, 4, 5, 6, 7, 8 :: nat] \<noteq> 1
   \<and> plot_nearest_neighbors_3x3 demo_env [''a'', ''b'', ''c'', ''d'', ''e'', ''f'', ''g'', ''h'', ''i'']
       [[0], [0], [1], [2], [3], [4], [5], [6], [7]] ''b'' 0
       = Inr \<lparr>fig_number = 1, subplots =
           [\<lparr>position = 1, title = Some ''Example Image'',
              shown = \<lparr>shape = [11, 11, 3], pixels = ''/datasets/sentinel-2-italy-v1/a'', frame = 5\<rparr>\<rparr>,
            \<lparr>position = 2, title = None,
              shown = \<lparr>shape = [1, 1, 3], pixels = ''/datasets/sentinel-2-italy-v1/b'', frame = 0\<rparr>\<rparr>,
            \<lparr>position = 3, title = None,
              shown = \<lparr>shape = [1, 1, 3], pixels = ''/datasets/sentinel-2-italy-v1/c'', frame = 0\<rparr>\<rparr>,
            \<lparr>position = 4, title = None,
              shown = \<lparr>shape = [1, 1, 3], pixels = ''/datasets/sentinel-2-italy-v1/d'', frame = 0\<rparr>\<rparr>,
            \<lparr>position = 5, title = None,
              shown = \<lparr>shape = [1, 1, 3], pixels = ''/datasets/sentinel-2-italy-v1/e'', frame = 0\<rparr>\<rparr>,
            \<lparr>position = 6, title = None,
              shown = \<lparr>shape = [1, 1, 3], pixels = ''/datasets/sentinel-2-italy-v1/f'', frame = 0\<rparr>\<rparr>,
            \<lparr>position = 7, title = None,
              shown = \<lparr>shape = [1, 1, 3], pixels = ''/datasets/sentinel-2-italy-v1/g'', frame = 0\<rparr>\<rparr>,
            \<lparr>position = 8, title = None,
              shown = \<lparr>shape = [1, 1, 3], pixels = ''/datasets/sentinel-2-italy-v1/h'', frame = 0\<rparr>\<rparr>,
            \<lparr>position = 9, title = None,
              shown = \<lparr>shape = [1, 1, 3], pixels = ''/datasets/sentinel-2-italy-v1/i'', frame = 0\<rparr>\<rparr>]\<rparr>"
proof -
  have d: "sq_distances [[0], [0], [1], [2], [3], [4], [5], [6], [7]] [0]
      = [0, 0, 1, 4, 9, 16, 25, 36, 49]"
    by (simp add: sq_distances_def)
  have p: "plot_nearest_neighbors_3x3 demo_env [''a'', ''b'', ''c'', ''d'', ''e'', ''f'', ''g'', ''h'', ''i'']
       [[0], [0], [1], [2], [3], [4], [5], [6], [7]] ''b'' 0
       = Inr \<lparr>fig_number = 1, subplots =
           [\<lparr>position = 1, title = Some ''Example Image'',
              shown = \<lparr>shape = [11, 11, 3], pixels = ''/datasets/sentinel-2-italy-v1/a'', frame = 5\<rparr>\<rparr>,
            \<lparr>position = 2, title = None,
              shown = \<lparr>shape = [1, 1, 3], pixels = ''/datasets/sentinel-2-italy-v1/b'', frame = 0\<rparr>\<rparr>,
            \<lparr>position = 3, title = None,
              shown = \<lparr>shape = [1, 1, 3], pixels = ''/datasets/sentinel-2-italy-v1/c'', frame = 0\<rparr>\<rparr>,
            \<lparr>position = 4, title = None,
              shown = \<lparr>shape = [1, 1, 3], pixels = ''/datasets/sentinel-2-italy-v1/d'', frame = 0\<rparr>\<rparr>,
            \<lparr>position = 5, title = None,
              shown = \<lparr>shape = [1, 1, 3], pixels = ''/datasets/sentinel-2-italy-v1/e'', frame = 0\<rparr>\<rparr>,
            \<lparr>position = 6, title = None,
              shown = \<lparr>shape = [1, 1, 3], pixels = ''/datasets/sentinel-2-italy-v1/f'', frame = 0\<rparr>\<rparr>,
            \<lparr>position = 7, title = None,
              shown = \<lparr>shape = [1, 1, 3], pixels = ''/datasets/sentinel-2-italy-v1/g'', frame = 0\<rparr>\<rparr>,
            \<lparr>position = 8, title = None,
              shown = \<lparr>shape = [1, 1, 3], pixels = ''/datasets/sentinel-2-italy-v1/h'', frame = 0\<rparr>\<rparr>,
            \<lparr>position = 9, title = None,
              shown = \<lparr>shape = [1, 1, 3], pixels = ''/datasets/sentinel-2-italy-v1/i'', frame = 0\<rparr>\<rparr>]\<rparr>"
    unfolding plot_nearest_neighbors_3x3_def tie_nearest_neighbors
    by (simp add: list_getitem_def enumerate_eq_zip upt_conv_Cons
        get_image_as_np_array_with_frame_def get_image_as_np_array_def demo_env_def
        os_path_join_def path_to_data_def)
  show ?thesis using d p tie_nearest_neighbors by simp
qed

section \<open>Properties of the model and of the training\<close>

text \<open>
  Claim C1. For every batch \<open>x\<close>, \<^verbatim>\<open>SimSiam.forward\<close> computes
  \<open>f = flatten(backbone(x))\<close>, \<open>z = projection_head(f)\<close>, \<open>p = prediction_head(z)\<close> and
  returns the pair of \<open>z\<close> detached and \<open>p\<close>: the first component has the data of \<open>z\<close>
  and no autograd node, so no gradient flows through it; the second is the prediction
  head's output on the projection before it was detached, with the autograd node that
  the head gave it.
\<close>

theorem forward_pipeline:
  "forward T self x =
      (detach (projection_head self (training self)
                 (flatten_start_dim1 T (backbone self (training self) x))),
       prediction_head self (training self)
         (projection_head self (training self)
            (flatten_start_dim1 T (backbone self (training self) x))))
   \<and> grad_fn (fst (forward T self x)) = None
   \<and> tdata (fst (forward T self x)) =
       tdata (projection_head self (training self)
                (flatten_start_dim1 T (backbone self (training self) x)))
   \<and> grad_fn (snd (forward T self x)) =
       grad_fn (prediction_head self (training self)
                  (projection_head self (training self)
                     (flatten_start_dim1 T (backbone self (training self) x))))"
  by (simp add: forward_def detach_def Let_def)

lemma train_step_fields:
  "grads (train_step T b st) = optimizer_zero_grad T (backward T (batch_loss T (model st) b) (grads st))"
  "optimizer (train_step T b st) =
     fst (optimizer_step T (backward T (batch_loss T (model st) b) (grads st)) (optimizer st, model st))"
  "model (train_step T b st) =
     snd (optimizer_step T (backward T (batch_loss T (model st) b) (grads st)) (optimizer st, model st))"
  "avg_loss (train_step T b st) = 9 / 10 * avg_loss st + 1 / 10 * tdata (batch_loss T (model st) b)"
  "avg_output_std (train_step T b st) =
     9 / 10 * avg_output_std st + 1 / 10 * output_std (snd (forward T (model st) (fst b)))"
  "printed (train_step T b st) = printed st"
  by (simp_all add: train_step_def batch_loss_def Let_def)

lemma batch_loss_value:
  "tdata (batch_loss T m b) =
     1 / 2 * (tdata (criterion T (fst (forward T m (fst b))) (snd (forward T m (snd b))))
            + tdata (criterion T (fst (forward T m (snd b))) (snd (forward T m (fst b)))))"
  by (simp add: batch_loss_def tensor_rmul_def tensor_add_def)

lemma ema_append: "ema (xs @ ys) a = ema ys (ema xs a)"
  by (simp add: ema_def)

lemma ema_Cons: "ema (x # xs) a = ema xs (9 / 10 * a + 1 / 10 * x)"
  by (simp add: ema_def)

lemma ema_Nil: "ema [] a = a"
  by (simp add: ema_def)

lemma fold_train_step_avgs:
  "avg_loss (fold (train_step T) bs st) = ema (map fst (step_history T bs st)) (avg_loss st)
   \<and> avg_output_std (fold (train_step T) bs st)
       = ema (map snd (step_history T bs st)) (avg_output_std st)
   \<and> printed (fold (train_step T) bs st) = printed st"
proof (induction bs arbitrary: st)
  case Nil
  show ?case by (simp add: ema_Nil)
next
  case (Cons b bs)
  show ?case
    using Cons.IH [of "train_step T b st"]
    by (simp add: ema_Cons train_step_fields)
qed

lemma step_history_length: "length (step_history T bs st) = length bs"
  by (induction bs arbitrary: st) simp_all

lemma train_Suc: "train T loader (Suc n) st = train_epoch T loader n (train T loader n st)"
  by (simp add: train_def)

lemma train_0: "train T loader 0 st = st"
  by (simp add: train_def)

lemma train_epoch_fields:
  "avg_loss (train_epoch T loader e st) = avg_loss (fold (train_step T) (loader e) st)"
  "avg_output_std (train_epoch T loader e st) = avg_output_std (fold (train_step T) (loader e) st)"
  "printed (train_epoch T loader e st) =
     printed st @ [(e, avg_loss (fold (train_step T) (loader e) st),
                    collapse_level (avg_output_std (fold (train_step T) (loader e) st)))]"
  by (simp_all add: train_epoch_def Let_def fold_train_step_avgs)

lemma train_history_Suc:
  "train_history T loader (Suc n) st =
     train_history T loader n st @ step_history T (loader n) (train T loader n st)"
  by (simp add: train_history_def)

lemma train_avgs:
  "avg_loss (train T loader n st) = ema (map fst (train_history T loader n st)) (avg_loss st)
   \<and> avg_output_std (train T loader n st)
       = ema (map snd (train_history T loader n st)) (avg_output_std st)"
proof (induction n)
  case 0
  show ?case by (simp add: train_0 train_history_def ema_Nil)
next
  case (Suc n)
  show ?case
    using Suc.IH
    by (simp add: train_Suc train_epoch_fields fold_train_step_avgs train_history_Suc ema_append)
qed

lemma train_history_length:
  "length (train_history T loader n st) = (\<Sum>e<n. length (loader e))"
  by (induction n) (simp_all add: train_history_Suc step_history_length, simp add: train_history_def)

lemma train_printed:
  "printed (train T loader n st) =
     printed st @
     map (\<lambda>e. (e, ema (map fst (train_history T loader (Suc e) st)) (avg_loss st),
                collapse_level (ema (map snd (train_history T loader (Suc e) st)) (avg_output_std st))))
       [0..<n]"
proof (induction n)
  case 0
  show ?case by (simp add: train_0)
next
  case (Suc n)
  have a: "avg_loss (fold (train_step T) (loader n) (train T loader n st))
      = ema (map fst (train_history T loader (Suc n) st)) (avg_loss st)"
    using train_avgs [of T loader "Suc n" st] by (simp add: train_Suc train_epoch_fields)
  have b: "avg_output_std (fold (train_step T) (loader n) (train T loader n st))
      = ema (map snd (train_history T loader (Suc n) st)) (avg_output_std st)"
    using train_avgs [of T loader "Suc n" st] by (simp add: train_Suc train_epoch_fields)
  show ?case
    unfolding train_Suc train_epoch_fields(3) a b Suc.IH by simp
qed

text \<open>
  Claim C2. On every batch \<^verbatim>\<open>(x0, x1)\<close> the training step runs both views through the
  model and computes the loss \<open>0.5 * (criterion(z0, p1) + criterion(z1, p0))\<close>; the
  gradients after the step are those of one backward pass of that loss followed by the
  reset, and the optimizer and the module are those of one optimizer step taken on the
  gradients of that backward pass; the two logging scalars become
  \<open>0.9 * avg_loss + 0.1 * loss\<close> and \<open>0.9 * avg_output_std + 0.1 * output_std\<close>, and nothing
  is printed. Both scalars start at \<open>0\<close>. The training takes one such step for each batch
  of each epoch, so that after \<open>n\<close> epochs the scalars are the moving averages of the
  losses and output standard deviations of all batches so far.
\<close>

theorem training_step_symmetric_loss:
  "tdata (batch_loss T (model st) (x0, x1)) =
      1 / 2 * (tdata (criterion T (fst (forward T (model st) x0)) (snd (forward T (model st) x1)))
             + tdata (criterion T (fst (forward T (model st) x1)) (snd (forward T (model st) x0))))
   \<and> grads (train_step T (x0, x1) st) =
       optimizer_zero_grad T (backward T (batch_loss T (model st) (x0, x1)) (grads st))
   \<and> (optimizer (train_step T (x0, x1) st), model (train_step T (x0, x1) st)) =
       optimizer_step T (backward T (batch_loss T (model st) (x0, x1)) (grads st))
         (optimizer st, model st)
   \<and> avg_loss (train_step T (x0, x1) st) =
       9 / 10 * avg_loss st + 1 / 10 * tdata (batch_loss T (model st) (x0, x1))
   \<and> avg_output_std (train_step T (x0, x1) st) =
       9 / 10 * avg_output_std st + 1 / 10 * output_std (snd (forward T (model st) x0))
   \<and> printed (train_step T (x0, x1) st) = printed st
   \<and> avg_loss (initial_state m g opt) = 0
   \<and> avg_output_std (initial_state m g opt) = 0
   \<and> length (train_history T loader n (initial_state m g opt)) = (\<Sum>e<n. length (loader e))
   \<and> avg_loss (train T loader n (initial_state m g opt)) =
       ema (map fst (train_history T loader n (initial_state m g opt))) 0
   \<and> avg_output_std (train T loader n (initial_state m g opt)) =
       ema (map snd (train_history T loader n (initial_state m g opt))) 0"
proof -
  have init: "avg_loss (initial_state m g opt) = 0" "avg_output_std (initial_state m g opt) = 0"
    by (simp_all add: initial_state_def)
  have step: "(optimizer (train_step T (x0, x1) st), model (train_step T (x0, x1) st)) =
       optimizer_step T (backward T (batch_loss T (model st) (x0, x1)) (grads st))
         (optimizer st, model st)"
    by (simp add: train_step_fields)
  show ?thesis
    using batch_loss_value [of T "model st" "(x0, x1)"] step
      train_step_fields(1,4,5,6) [of T "(x0, x1)" st] init
      train_history_length [of T loader n "initial_state m g opt"]
      train_avgs [of T loader n "initial_state m g opt"]
    by simp
qed

text \<open>
  Claim C3. After \<open>n\<close> epochs exactly \<open>n\<close> lines have been printed, one per epoch and in
  order; the collapse level of epoch \<open>e\<close> is \<open>max(0, 1 - sqrt(out_dim) * avg_output_std)\<close>
  for the value \<^verbatim>\<open>avg_output_std\<close> has after the batch loop of epoch \<open>e\<close>. That value is
  the moving average, started at \<open>0\<close> before the first epoch and never reset, over the
  batches of the epochs \<open>0, ..., e\<close>, of the mean over the columns of the standard
  deviation of the row-normalised predictions \<^verbatim>\<open>p0\<close>.
\<close>

theorem collapse_level_once_per_epoch:
  "printed (train T loader n (initial_state m g opt)) =
      map (\<lambda>e. (e, ema (map fst (train_history T loader (Suc e) (initial_state m g opt))) 0,
                 max 0 (1 - sqrt (real out_dim)
                    * ema (map snd (train_history T loader (Suc e) (initial_state m g opt))) 0)))
        [0..<n]
   \<and> length (printed (train T loader n (initial_state m g opt))) = n
   \<and> length (printed (training_cell T loader m g opt)) = epochs
   \<and> train_history T loader (Suc e) (initial_state m g opt) =
       train_history T loader e (initial_state m g opt)
         @ step_history T (loader e) (train T loader e (initial_state m g opt))
   \<and> map snd (step_history T (b # bs) st) =
       mean (std_dim0 (normalize_dim1 (tdata (snd (forward T (model st) (fst b))))))
         # map snd (step_history T bs (train_step T b st))
   \<and> avg_output_std (train T loader e (initial_state m g opt)) =
       ema (map snd (train_history T loader e (initial_state m g opt))) 0"
proof -
  have init: "avg_loss (initial_state m g opt) = 0" "avg_output_std (initial_state m g opt) = 0"
    "printed (initial_state m g opt) = []"
    by (simp_all add: initial_state_def)
  have p: "printed (train T loader n (initial_state m g opt)) =
      map (\<lambda>e. (e, ema (map fst (train_history T loader (Suc e) (initial_state m g opt))) 0,
                 max 0 (1 - sqrt (real out_dim)
                    * ema (map snd (train_history T loader (Suc e) (initial_state m g opt))) 0)))
        [0..<n]"
    unfolding train_printed [of T loader n "initial_state m g opt"] init
    by (simp add: collapse_level_def)
  have l: "length (printed (train T loader n (initial_state m g opt))) = n"
    unfolding p by simp
  have c: "length (printed (training_cell T loader m g opt)) = epochs"
    unfolding training_cell_def train_printed init by simp
  have s: "map snd (step_history T (b # bs) st) =
       mean (std_dim0 (normalize_dim1 (tdata (snd (forward T (model st) (fst b))))))
         # map snd (step_history T bs (train_step T b st))"
    by (simp add: output_std_def detach_def)
  show ?thesis
    using p l c s train_history_Suc [of T loader e "initial_state m g opt"]
      train_avgs [of T loader e "initial_state m g opt"] init(2)
    by simp
qed

lemma mean_nonneg: "(\<And>x. x \<in> set xs \<Longrightarrow> 0 \<le> x) \<Longrightarrow> 0 \<le> mean xs"
  by (simp add: mean_def sum_list_nonneg)

lemma std_nonneg: "0 \<le> std xs"
proof -
  have s: "0 \<le> sum_list (map (\<lambda>x. (x - mean xs)\<^sup>2) xs)"
    by (rule sum_list_nonneg) auto
  have "0 \<le> sum_list (map (\<lambda>x. (x - mean xs)\<^sup>2) xs) / (real (length xs) - 1)"
  proof (cases "length xs \<le> 1")
    case True
    then have "length xs = 0 \<or> length xs = 1" by linarith
    then show ?thesis by auto
  next
    case False
    then have "0 < real (length xs) - 1" by simp
    with s show ?thesis by simp
  qed
  then show ?thesis by (simp add: std_def)
qed

lemma output_std_nonneg: "0 \<le> output_std p"
  unfolding output_std_def
  by (rule mean_nonneg) (auto simp add: std_dim0_def std_nonneg split: list.splits)

lemma ema_nonneg: "0 \<le> a \<Longrightarrow> (\<And>x. x \<in> set xs \<Longrightarrow> 0 \<le> x) \<Longrightarrow> 0 \<le> ema xs a"
proof (induction xs arbitrary: a)
  case Nil
  then show ?case by (simp add: ema_Nil)
next
  case (Cons x xs)
  have "0 \<le> 9 / 10 * a + 1 / 10 * x" using Cons.prems by simp
  then show ?case using Cons by (simp add: ema_Cons)
qed

lemma step_history_std_nonneg: "h \<in> set (step_history T bs st) \<Longrightarrow> 0 \<le> snd h"
  by (induction bs arbitrary: st) (auto simp add: output_std_nonneg)

lemma train_history_std_nonneg: "h \<in> set (train_history T loader n st) \<Longrightarrow> 0 \<le> snd h"
  by (auto simp add: train_history_def step_history_std_nonneg)

lemma collapse_level_bounds: "0 \<le> a \<Longrightarrow> 0 \<le> collapse_level a \<and> collapse_level a \<le> 1"
  by (simp add: collapse_level_def)

lemma printed_collapse_level_bounds:
  assumes "line \<in> set (printed (train T loader n (initial_state m g opt)))"
  shows "0 \<le> snd (snd line) \<and> snd (snd line) \<le> 1"
proof -
  from assms obtain e where
    "snd (snd line) = collapse_level
       (ema (map snd (train_history T loader (Suc e) (initial_state m g opt)))
          (avg_output_std (initial_state m g opt)))"
    unfolding train_printed by (auto simp add: initial_state_def)
  moreover have "0 \<le> ema (map snd (train_history T loader (Suc e) (initial_state m g opt)))
          (avg_output_std (initial_state m g opt))"
  proof (rule ema_nonneg)
    show "0 \<le> avg_output_std (initial_state m g opt)"
      by (simp add: initial_state_def)
  next
    fix x
    assume "x \<in> set (map snd (train_history T loader (Suc e) (initial_state m g opt)))"
    then obtain h where "h \<in> set (train_history T loader (Suc e) (initial_state m g opt))"
      and "x = snd h"
      by auto
    then show "0 \<le> x" using train_history_std_nonneg by blast
  qed
  ultimately show ?thesis
    using collapse_level_bounds by simp
qed

text \<open>
  Claim C9. Every collapse level printed during the training, for any number of epochs
  and for the \<^verbatim>\<open>epochs\<close> of the notebook, lies in \<open>[0, 1]\<close>: the
  output standard deviations are not negative, so their moving average from \<open>0\<close> is not
  negative, and \<open>max(0, 1 - sqrt(out_dim) * avg_output_std)\<close> is between \<open>0\<close> and \<open>1\<close>.
\<close>

theorem collapse_level_in_unit_interval:
  "(\<forall>line\<in>set (printed (train T loader n (initial_state m g opt))).
      0 \<le> snd (snd line) \<and> snd (snd line) \<le> 1)
   \<and> (\<forall>line\<in>set (printed (training_cell T loader m g opt)).
      0 \<le> snd (snd line) \<and> snd (snd line) \<le> 1)"
  unfolding training_cell_def by (intro conjI ballI printed_collapse_level_bounds)

lemma demo_output_std: "output_std \<lparr>tdata = [[2, 0], [2, 0]], grad_fn = Some ()\<rparr> = 0"
  by (simp add: output_std_def detach_def normalize_dim1_def l2_norm_def std_dim0_def std_def
      mean_def upt_conv_Cons)

lemma demo_forward:
  "forward demo_torch demo_model [2, 2] =
     (\<lparr>tdata = [[2, 0], [2, 0]], grad_fn = None\<rparr>, \<lparr>tdata = [[2, 0], [2, 0]], grad_fn = Some ()\<rparr>)"
  by (simp add: forward_def demo_torch_def demo_model_def flatten_start_dim1_def detach_def)

lemma demo_train_step:
  "model st = demo_model \<Longrightarrow>
   train_step demo_torch ([2, 2], [2, 2]) st =
     st\<lparr>avg_loss := 9 / 10 * avg_loss st - 1 / 10, avg_output_std := 9 / 10 * avg_output_std st\<rparr>"
  by (simp add: train_step_def demo_forward demo_output_std Let_def)
     (simp add: demo_torch_def tensor_rmul_def tensor_add_def)

lemma demo_train:
  "printed (train demo_torch (\<lambda>e. [([2, 2], [2, 2])]) 2 (initial_state demo_model () ()))
     = [(0, - 1 / 10, 1), (1, - 19 / 100, 1)]"
  by (simp add: train_def upt_conv_Cons train_epoch_def demo_train_step initial_state_def
      collapse_level_def Let_def)


theorem forward_pipeline_witness:
  "forward demo_torch demo_model [2, 2] =
     (\<lparr>tdata = [[2, 0], [2, 0]], grad_fn = None\<rparr>, \<lparr>tdata = [[2, 0], [2, 0]], grad_fn = Some ()\<rparr>)
   \<and> grad_fn (fst (forward demo_torch demo_model [2, 2])) = None
   \<and> grad_fn (snd (forward demo_torch demo_model [2, 2])) = Some ()"
  using forward_pipeline [of demo_torch demo_model "[2, 2]"]
  by (simp add: demo_torch_def demo_model_def flatten_start_dim1_def detach_def)

theorem training_step_symmetric_loss_witness:
  "avg_loss (train_step demo_torch ([2, 2], [2, 2]) (initial_state demo_model () ())) = - 1 / 10
   \<and> avg_output_std (train_step demo_torch ([2, 2], [2, 2]) (initial_state demo_model () ())) = 0
   \<and> tdata (batch_loss demo_torch demo_model ([2, 2], [2, 2])) = - 1"
proof -
  have m: "model (initial_state demo_model () ()) = demo_model"
    and a: "avg_loss (initial_state demo_model () ()) = 0"
       "avg_output_std (initial_state demo_model () ()) = 0"
    by (simp_all add: initial_state_def)
  have l: "tdata (batch_loss demo_torch demo_model ([2, 2], [2, 2])) = - 1"
    by (simp add: batch_loss_def tensor_rmul_def tensor_add_def, simp add: demo_torch_def)
  show ?thesis
    using training_step_symmetric_loss
      [of demo_torch "initial_state demo_model () ()" "[2, 2]" "[2, 2]" demo_model "()" "()" "\<lambda>e. []" 0]
    unfolding m a l demo_forward snd_conv demo_output_std
    by simp
qed

theorem collapse_level_once_per_epoch_witness:
  "printed (train demo_torch (\<lambda>e. [([2, 2], [2, 2])]) 2 (initial_state demo_model () ()))
     = [(0, - 1 / 10, 1), (1, - 19 / 100, 1)]
   \<and> length (printed (train demo_torch (\<lambda>e. [([2, 2], [2, 2])]) 2 (initial_state demo_model () ()))) = 2"
  using collapse_level_once_per_epoch
    [of demo_torch "\<lambda>e. [([2, 2], [2, 2])]" 2 demo_model "()" "()" 0 "([2, 2], [2, 2])" "[]"
        "initial_state demo_model () ()"]
    demo_train
  by simp

theorem collapse_level_in_unit_interval_witness:
  "(1, - 19 / 100, 1) \<in> set (printed (train demo_torch (\<lambda>e. [([2, 2], [2, 2])]) 2
                                           (initial_state demo_model () ())))
   \<and> 0 \<le> snd (snd (1 :: nat, - 19 / 100 :: real, 1 :: real))
   \<and> snd (snd (1 :: nat, - 19 / 100 :: real, 1 :: real)) \<le> 1"
proof -
  have mem: "(1, - 19 / 100, 1) \<in> set (printed (train demo_torch (\<lambda>e. [([2, 2], [2, 2])]) 2
                                           (initial_state demo_model () ())))"
    unfolding demo_train by simp
  from collapse_level_in_unit_interval [of demo_torch "\<lambda>e. [([2, 2], [2, 2])]" 2 demo_model "()" "()"]
    mem
  have "0 \<le> snd (snd (1 :: nat, - 19 / 100 :: real, 1 :: real))
      \<and> snd (snd (1 :: nat, - 19 / 100 :: real, 1 :: real)) \<le> 1"
    by blast
  with mem show ?thesis by blast
qed

section \<open>Properties of the data loaders and of the embedding\<close>

lemma chunks_Nil: "chunks n [] = []"
  by (subst chunks.simps) simp

lemma chunks_step: "0 < n \<Longrightarrow> xs \<noteq> [] \<Longrightarrow> chunks n xs = take n xs # chunks n (drop n xs)"
  by (subst chunks.simps) simp

lemma concat_chunks: "0 < n \<Longrightarrow> concat (chunks n xs) = xs"
proof (induction n xs rule: chunks.induct)
  case (1 n xs)
  show ?case
  proof (cases "xs = []")
    case True
    then show ?thesis by (simp add: chunks_Nil)
  next
    case False
    then show ?thesis using 1 by (simp add: chunks_step)
  qed
qed

lemma chunks_eq_Nil: "0 < n \<Longrightarrow> chunks n xs = [] \<longleftrightarrow> xs = []"
  by (cases "xs = []") (simp_all add: chunks_Nil chunks_step)

lemma chunks_nth:
  assumes "0 < n" and "i < length xs"
  shows "i div n < length (chunks n xs) \<and> i mod n < length (chunks n xs ! (i div n))
       \<and> chunks n xs ! (i div n) ! (i mod n) = xs ! i"
  using assms
proof (induction n xs arbitrary: i rule: chunks.induct)
  case (1 n xs)
  have ne: "xs \<noteq> []" using "1.prems" by auto
  have c: "chunks n xs = take n xs # chunks n (drop n xs)"
    using "1.prems"(1) ne by (rule chunks_step)
  show ?case
  proof (cases "i < n")
    case True
    then show ?thesis using "1.prems" by (simp add: c)
  next
    case False
    let ?i = "i - n"
    have i': "?i < length (drop n xs)" using False "1.prems" by simp
    have ih: "?i div n < length (chunks n (drop n xs))
        \<and> ?i mod n < length (chunks n (drop n xs) ! (?i div n))
        \<and> chunks n (drop n xs) ! (?i div n) ! (?i mod n) = drop n xs ! ?i"
      using "1.IH" [of ?i] "1.prems"(1) ne i' by simp
    have d: "i div n = Suc (?i div n)" and m: "i mod n = ?i mod n"
      using False "1.prems"(1) by (simp_all add: le_div_geq le_mod_geq)
    have "drop n xs ! ?i = xs ! i" using False "1.prems" by simp
    then show ?thesis using ih by (simp add: c d m)
  qed
qed

lemma concat_map_chunks_nth:
  assumes n: "0 < n" and len: "\<And>c. length (f c) = length c" and i: "i < length xs"
  shows "concat (map f (chunks n xs)) ! i = f (chunks n xs ! (i div n)) ! (i mod n)"
  using n i
proof (induction n xs arbitrary: i rule: chunks.induct)
  case (1 n xs)
  have ne: "xs \<noteq> []" using "1.prems" by auto
  have c: "chunks n xs = take n xs # chunks n (drop n xs)"
    using "1.prems"(1) ne by (rule chunks_step)
  show ?case
  proof (cases "i < n")
    case True
    then have "i < length (f (take n xs))" using "1.prems" by (simp add: len)
    then show ?thesis using True by (simp add: c nth_append)
  next
    case False
    let ?i = "i - n"
    have i': "?i < length (drop n xs)" using False "1.prems" by simp
    have ih: "concat (map f (chunks n (drop n xs))) ! ?i
        = f (chunks n (drop n xs) ! (?i div n)) ! (?i mod n)"
      using "1.IH" [of ?i] "1.prems"(1) ne i' by simp
    have d: "i div n = Suc (?i div n)" and m: "i mod n = ?i mod n"
      using False "1.prems"(1) by (simp_all add: le_div_geq le_mod_geq)
    have l: "length (f (take n xs)) = n" using False "1.prems" by (simp add: len)
    show ?thesis using ih False by (simp add: c d m nth_append l)
  qed
qed

lemma length_concat_map_same:
  assumes "\<And>c. length (f c) = length c"
  shows "length (concat (map f cs)) = length (concat cs)"
  by (induction cs) (simp_all add: assms)

lemma DataLoader_sequential:
  "DataLoader ds bs None False = chunks bs ds"
  by (simp add: DataLoader_def map_nth)

lemma fold_embed_step:
  "fold (embed_step T m) loader acc =
     (fst acc @ map (\<lambda>b. flatten_start_dim1 T (backbone m (training m) (fst b))) loader,
      snd acc @ concat (map snd loader))"
  by (induction loader arbitrary: acc) (simp_all add: embed_step_def Let_def)

lemma embed_result:
  "embed T m loader =
     (if loader = [] then Inl RuntimeError
      else Inr (concat (map (\<lambda>b. tdata (flatten_start_dim1 T (backbone m False (fst b)))) loader),
                concat (map snd loader)))"
  by (simp add: embed_def fold_embed_step torch_cat_def model_eval_def Let_def comp_def)

lemma flatten_length: "length (tdata (flatten_start_dim1 T t)) = length (tdata t)"
  by (simp add: flatten_start_dim1_def)

lemma flatten_nth:
  "j < length (tdata t) \<Longrightarrow> tdata (flatten_start_dim1 T t) ! j = concat (map concat (tdata t ! j))"
  by (simp add: flatten_start_dim1_def)

text \<open>
  Claim C4. When the embedding cell completes, \<^verbatim>\<open>embeddings\<close> and \<^verbatim>\<open>filenames\<close> have one
  entry per sample of the test dataset, in the dataset's order (the loader does not
  shuffle): for every index \<open>i\<close>, \<^verbatim>\<open>filenames[i]\<close> is the file name of sample \<open>i\<close>, and
  row \<open>i\<close> of \<^verbatim>\<open>embeddings\<close> is the row of the flattened backbone output of the batch
  \<open>i div batch_size\<close> at position \<open>i mod batch_size\<close>, where that batch holds the image of
  sample \<open>i\<close>. With a backbone that (in evaluation mode) maps each image on its own, row
  \<open>i\<close> is the flattened backbone output of the image of \<^verbatim>\<open>filenames[i]\<close>. The backbone
  is taken to give one output row per image of a batch.
\<close>

theorem embeddings_filenames_aligned:
  assumes rows: "\<forall>x. length (tdata (backbone m False x)) = length x"
    and ok: "embed T m (dataloader_test fs tt) = Inr (embeddings, filenames)"
  shows "length embeddings = length (dataset_test fs tt)
    \<and> length filenames = length (dataset_test fs tt)
    \<and> (\<forall>i<length (dataset_test fs tt).
          filenames ! i = snd (dataset_test fs tt ! i)
        \<and> map fst (DataLoader (dataset_test fs tt) batch_size None False ! (i div batch_size))
             ! (i mod batch_size) = fst (dataset_test fs tt ! i)
        \<and> embeddings ! i =
            tdata (flatten_start_dim1 T (backbone m False
              (map fst (DataLoader (dataset_test fs tt) batch_size None False ! (i div batch_size)))))
              ! (i mod batch_size)
        \<and> (\<forall>f. (\<forall>x. tdata (backbone m False x) = map f x) \<longrightarrow>
              embeddings ! i = concat (map concat (f (fst (dataset_test fs tt ! i))))))"
proof -
  let ?ds = "dataset_test fs tt"
  let ?cs = "chunks batch_size ?ds"
  let ?F = "\<lambda>c. tdata (flatten_start_dim1 T (backbone m False (map fst c)))"
  have bs: "0 < batch_size" by (simp add: batch_size_def)
  have loader: "dataloader_test fs tt = map (\<lambda>b. (map fst b, map snd b)) ?cs"
    by (simp add: dataloader_test_def DataLoader_sequential)
  have lenF: "length (?F c) = length c" for c
    using rows by (simp add: flatten_length)
  from ok have E: "embeddings = concat (map ?F ?cs)"
    and N: "filenames = concat (map (map snd) ?cs)"
    unfolding embed_result loader by (simp_all add: comp_def split: if_splits)
  have N': "filenames = map snd ?ds"
    unfolding N using concat_chunks [OF bs, of ?ds] by (simp flip: map_concat)
  have lenE: "length embeddings = length ?ds"
    unfolding E using length_concat_map_same [of ?F ?cs, OF lenF] concat_chunks [OF bs, of ?ds]
    by simp
  have each: "filenames ! i = snd (?ds ! i)
        \<and> map fst (DataLoader ?ds batch_size None False ! (i div batch_size))
             ! (i mod batch_size) = fst (?ds ! i)
        \<and> embeddings ! i =
            tdata (flatten_start_dim1 T (backbone m False
              (map fst (DataLoader ?ds batch_size None False ! (i div batch_size)))))
              ! (i mod batch_size)
        \<and> (\<forall>f. (\<forall>x. tdata (backbone m False x) = map f x) \<longrightarrow>
              embeddings ! i = concat (map concat (f (fst (?ds ! i)))))"
    if i: "i < length ?ds" for i
  proof -
    have ch: "i div batch_size < length ?cs" "i mod batch_size < length (?cs ! (i div batch_size))"
      "?cs ! (i div batch_size) ! (i mod batch_size) = ?ds ! i"
      using chunks_nth [OF bs i] by simp_all
    have a: "filenames ! i = snd (?ds ! i)" unfolding N' using i by simp
    have b: "map fst (?cs ! (i div batch_size)) ! (i mod batch_size) = fst (?ds ! i)"
      using ch by simp
    have c: "embeddings ! i = ?F (?cs ! (i div batch_size)) ! (i mod batch_size)"
      unfolding E using bs lenF i by (rule concat_map_chunks_nth)
    have d: "embeddings ! i = concat (map concat (f (fst (?ds ! i))))"
      if f: "\<forall>x. tdata (backbone m False x) = map f x" for f
    proof -
      have "?F (?cs ! (i div batch_size)) ! (i mod batch_size)
          = concat (map concat (tdata (backbone m False (map fst (?cs ! (i div batch_size))))
               ! (i mod batch_size)))"
        using ch(2) rows by (intro flatten_nth) simp
      also have "\<dots> = concat (map concat (f (map fst (?cs ! (i div batch_size)) ! (i mod batch_size))))"
        using f ch(2) by simp
      finally show ?thesis unfolding c b .
    qed
    show ?thesis using a b c d unfolding DataLoader_sequential by blast
  qed
  have lenN: "length filenames = length ?ds" unfolding N' by simp
  show ?thesis using lenE lenN each by blast
qed

lemma chunks_exact: "0 < n \<Longrightarrow> length xs = n \<Longrightarrow> chunks n xs = [xs]"
  by (subst chunks_step) (auto simp add: chunks_Nil)

lemma chunks_short:
  assumes "xs \<noteq> []" and "length xs \<le> n"
  shows "chunks n xs = [xs]"
proof -
  have "0 < n" using assms by (cases xs) auto
  then show ?thesis using assms by (simp add: chunks_step chunks_Nil)
qed

lemma chunks_subset: "c \<in> set (chunks n xs) \<Longrightarrow> set c \<subseteq> set xs"
proof (cases "0 < n")
  case True
  assume "c \<in> set (chunks n xs)"
  then have "set c \<subseteq> set (concat (chunks n xs))" by auto
  then show ?thesis using concat_chunks [OF True, of xs] by simp
next
  case False
  assume "c \<in> set (chunks n xs)"
  then show ?thesis using False by (subst (asm) chunks.simps) simp
qed

lemma dataset_filenames: "map snd (LightlyDataset fs dir tr) = map fst (fs dir)"
  by (simp add: LightlyDataset_def comp_def)

lemma demo_dataloader_test:
  "dataloader_test demo_fs (\<lambda>r. r) = [([3, 5], [''a.png'', ''b.png''])]"
  by (simp add: dataloader_test_def DataLoader_sequential dataset_test_def LightlyDataset_def
      demo_fs_def batch_size_def chunks_short)

lemma demo_embed:
  "embed demo_torch demo_model (dataloader_test demo_fs (\<lambda>r. r))
     = Inr ([[3, 0], [5, 0]], [''a.png'', ''b.png''])"
  unfolding demo_dataloader_test embed_result
  by (simp add: demo_model_def flatten_start_dim1_def)

theorem embeddings_filenames_aligned_witness:
  "embed demo_torch demo_model (dataloader_test demo_fs (\<lambda>r. r))
     = Inr ([[3, 0], [5, 0]], [''a.png'', ''b.png''])
   \<and> dataset_test demo_fs (\<lambda>r. r) = [(3, ''a.png''), (5, ''b.png'')]
   \<and> length [[3, 0], [5, 0 :: real]] = length (dataset_test demo_fs (\<lambda>r. r))
   \<and> [''a.png'', ''b.png''] ! 1 = snd (dataset_test demo_fs (\<lambda>r. r) ! 1)
   \<and> [[3, 0], [5, 0 :: real]] ! 1 = concat (map concat [[[real (fst (dataset_test demo_fs (\<lambda>r. r) ! 1)), 0]]])"
proof -
  have rows: "\<forall>x. length (tdata (backbone demo_model False x)) = length x"
    by (simp add: demo_model_def)
  have ds: "dataset_test demo_fs (\<lambda>r. r) = [(3, ''a.png''), (5, ''b.png'')]"
    by (simp add: dataset_test_def LightlyDataset_def demo_fs_def)
  have per: "\<forall>x. tdata (backbone demo_model False x) = map (\<lambda>x. [[[real x, 0]]]) x"
    by (simp add: demo_model_def)
  note inst = embeddings_filenames_aligned [OF rows demo_embed]
  have one: "1 < length (dataset_test demo_fs (\<lambda>r. r))" by (simp add: ds)
  from inst have len: "length [[3, 0], [5, 0 :: real]] = length (dataset_test demo_fs (\<lambda>r. r))"
    by blast
  from inst one have n: "[''a.png'', ''b.png''] ! 1 = snd (dataset_test demo_fs (\<lambda>r. r) ! 1)"
    by blast
  from inst one per
  have e: "[[3, 0], [5, 0 :: real]] ! 1
      = concat (map concat [[[real (fst (dataset_test demo_fs (\<lambda>r. r) ! 1)), 0]]])"
    by blast
  show ?thesis using demo_embed ds len n e by blast
qed

lemma test_train_same_files:
  "map snd (dataset_test fs tt) = map snd (dataset_train_simsiam fs)"
  by (simp add: dataset_test_def dataset_train_simsiam_def dataset_filenames)

lemma train_batch_files:
  assumes perm: "set perm \<subseteq> {..<length (dataset_train_simsiam fs)}"
    and batch: "batch \<in> set (dataloader_train_simsiam fs collate_fn perm)"
  shows "set (snd batch) \<subseteq> set (map snd (dataset_train_simsiam fs))"
proof -
  let ?ds = "dataset_train_simsiam fs"
  from batch obtain b where b: "b \<in> set (chunks batch_size (map (\<lambda>i. ?ds ! i) perm))"
    and sb: "snd batch = map snd b"
    by (auto simp add: dataloader_train_simsiam_def DataLoader_def Let_def split: if_splits)
  have "set b \<subseteq> set (map (\<lambda>i. ?ds ! i) perm)" using b by (rule chunks_subset)
  also have "\<dots> \<subseteq> set ?ds" using perm by auto
  finally show ?thesis unfolding sb by auto
qed

lemma embed_filenames:
  assumes ok: "embed T m (dataloader_test fs tt) = Inr (embeddings, filenames)"
  shows "filenames = map snd (dataset_test fs tt)"
proof -
  have bs: "0 < batch_size" by (simp add: batch_size_def)
  from ok have "filenames = concat (map snd (dataloader_test fs tt))"
    unfolding embed_result by (simp split: if_splits)
  also have "\<dots> = map snd (concat (chunks batch_size (dataset_test fs tt)))"
    by (simp add: dataloader_test_def DataLoader_sequential comp_def map_concat)
  also have "\<dots> = map snd (dataset_test fs tt)"
    by (simp add: concat_chunks [OF bs])
  finally show ?thesis .
qed

text \<open>
  Claim C6, as amended. The loader that the embedding stage iterates over is built on
  the same directory as the training loader, and holds nothing out: the test dataset has
  the files of the training dataset, in the same order; the files of every batch of every
  training epoch are among them; and the \<^verbatim>\<open>filenames\<close> that the embedding stage returns are
  the files of the training dataset.
\<close>

theorem embedding_loader_same_files:
  "map snd (dataset_test fs tt) = map snd (dataset_train_simsiam fs)
   \<and> (\<forall>perm. set perm \<subseteq> {..<length (dataset_train_simsiam fs)} \<longrightarrow>
        (\<forall>batch\<in>set (dataloader_train_simsiam fs collate_fn perm).
           set (snd batch) \<subseteq> set (map snd (dataset_test fs tt))))
   \<and> (embed T m (dataloader_test fs tt) = Inr (embeddings, filenames) \<longrightarrow>
          filenames = map snd (dataset_train_simsiam fs))"
  using test_train_same_files [of fs tt] train_batch_files [of _ fs _ collate_fn]
    embed_filenames [of T m fs tt embeddings filenames]
  by auto

lemma demo_train_dataset:
  "dataset_train_simsiam demo_fs128 = map (\<lambda>i. (i, replicate (Suc i) CHR ''a'')) [0..<128]"
  by (simp add: dataset_train_simsiam_def LightlyDataset_def demo_fs128_def comp_def)

lemma demo_train_loader:
  "dataloader_train_simsiam demo_fs128 demo_collate [0..<128] =
     [(([0..<128], [0..<128]), map (\<lambda>i. replicate (Suc i) CHR ''a'') [0..<128])]"
proof -
  let ?ds = "map (\<lambda>i. (i, replicate (Suc i) CHR ''a'')) [0..<128]"
  have e1: "map (\<lambda>i. ?ds ! i) [0..<128] = ?ds"
    using map_nth [of ?ds] by simp
  have e2: "chunks 128 ?ds = [?ds]"
    by (rule chunks_exact) simp_all
  have "DataLoader ?ds 128 (Some [0..<128]) True = [?ds]"
    unfolding DataLoader_def Let_def option.case e1 e2 by simp
  then show ?thesis
    unfolding dataloader_train_simsiam_def demo_train_dataset batch_size_def
    by (simp add: demo_collate_def comp_def del: upt_Suc)
qed

lemma demo_test_files:
  "concat (map snd (dataloader_test demo_fs128 (\<lambda>r. r)))
     = map (\<lambda>i. replicate (Suc i) CHR ''a'') [0..<128]"
proof -
  have bs: "0 < batch_size" by (simp add: batch_size_def)
  have "concat (map snd (dataloader_test demo_fs128 (\<lambda>r. r)))
      = map snd (concat (chunks batch_size (dataset_test demo_fs128 (\<lambda>r. r))))"
    by (simp add: dataloader_test_def DataLoader_sequential comp_def map_concat)
  also have "\<dots> = map snd (dataset_test demo_fs128 (\<lambda>r. r))"
    by (simp add: concat_chunks [OF bs])
  also have "\<dots> = map (\<lambda>i. replicate (Suc i) CHR ''a'') [0..<128]"
    by (simp add: dataset_test_def LightlyDataset_def demo_fs128_def comp_def)
  finally show ?thesis .
qed

text \<open>
  The claim as first stated fails on a directory of \<open>128\<close> files: the one batch of a
  training epoch contains the file \<open>a\<close>, and so does the embedding loader.
\<close>

theorem embedding_loader_same_files_counterexample:
  "length (dataloader_train_simsiam demo_fs128 demo_collate [0..<128]) = 1
   \<and> ''a'' \<in> set (snd (hd (dataloader_train_simsiam demo_fs128 demo_collate [0..<128])))
   \<and> ''a'' \<in> set (concat (map snd (dataloader_test demo_fs128 (\<lambda>r. r))))"
proof -
  have "''a'' = (\<lambda>i. replicate (Suc i) CHR ''a'') 0" by simp
  moreover have "(0::nat) \<in> set [0..<128]" by simp
  ultimately have "''a'' \<in> set (map (\<lambda>i. replicate (Suc i) CHR ''a'') [0..<128])"
    unfolding set_map by (rule image_eqI)
  then show ?thesis unfolding demo_train_loader demo_test_files by simp
qed

theorem embedding_loader_same_files_witness:
  "set [0..<128] \<subseteq> {..<length (dataset_train_simsiam demo_fs128)}
   \<and> hd (dataloader_train_simsiam demo_fs128 demo_collate [0..<128])
        \<in> set (dataloader_train_simsiam demo_fs128 demo_collate [0..<128])
   \<and> set (snd (hd (dataloader_train_simsiam demo_fs128 demo_collate [0..<128])))
        \<subseteq> set (map snd (dataset_test demo_fs128 (\<lambda>r. r)))
   \<and> map snd (dataset_test demo_fs (\<lambda>r. r)) = map snd (dataset_train_simsiam demo_fs)
   \<and> embed demo_torch demo_model (dataloader_test demo_fs (\<lambda>r. r))
       = Inr ([[3, 0], [5, 0]], [''a.png'', ''b.png''])
   \<and> [''a.png'', ''b.png''] = map snd (dataset_train_simsiam demo_fs)"
proof -
  have p: "set [0..<128] \<subseteq> {..<length (dataset_train_simsiam demo_fs128)}"
    unfolding demo_train_dataset by auto
  have h: "hd (dataloader_train_simsiam demo_fs128 demo_collate [0..<128])
        \<in> set (dataloader_train_simsiam demo_fs128 demo_collate [0..<128])"
    unfolding demo_train_loader by simp
  from embedding_loader_same_files [of demo_fs128 "\<lambda>r. r" demo_collate] p h
  have a: "set (snd (hd (dataloader_train_simsiam demo_fs128 demo_collate [0..<128])))
        \<subseteq> set (map snd (dataset_test demo_fs128 (\<lambda>r. r)))"
    by blast
  from embedding_loader_same_files [of demo_fs "\<lambda>r. r" demo_collate demo_torch demo_model
      "[[3, 0], [5, 0]]" "[''a.png'', ''b.png'']"] demo_embed
  have b: "map snd (dataset_test demo_fs (\<lambda>r. r)) = map snd (dataset_train_simsiam demo_fs)
      \<and> [''a.png'', ''b.png''] = map snd (dataset_train_simsiam demo_fs)"
    by blast
  show ?thesis using p h a b demo_embed by blast
qed

section \<open>Exceptions\<close>

lemma for_each_first_error:
  "for_each body xs = Inl e \<longleftrightarrow>
     (\<exists>k<length xs. body (xs ! k) = Inl e \<and> (\<forall>j<k. \<exists>y. body (xs ! j) = Inr y))"
proof (induction xs)
  case Nil
  show ?case by simp
next
  case (Cons x xs)
  show ?case
  proof (cases "body x")
    case (Inl e')
    have "(\<exists>k<length (x # xs). body ((x # xs) ! k) = Inl e
        \<and> (\<forall>j<k. \<exists>y. body ((x # xs) ! j) = Inr y)) \<longleftrightarrow> e' = e"
    proof
      assume "\<exists>k<length (x # xs). body ((x # xs) ! k) = Inl e
        \<and> (\<forall>j<k. \<exists>y. body ((x # xs) ! j) = Inr y)"
      then obtain k where k: "body ((x # xs) ! k) = Inl e"
        and before: "\<forall>j<k. \<exists>y. body ((x # xs) ! j) = Inr y"
        by blast
      show "e' = e"
      proof (cases k)
        case 0
        then show ?thesis using k Inl by simp
      next
        case (Suc k')
        then have "\<exists>y. body ((x # xs) ! 0) = Inr y" using before by blast
        then show ?thesis using Inl by simp
      qed
    next
      assume "e' = e"
      then have "body ((x # xs) ! 0) = Inl e \<and> (\<forall>j<0. \<exists>y. body ((x # xs) ! j) = Inr y)"
        using Inl by simp
      then show "\<exists>k<length (x # xs). body ((x # xs) ! k) = Inl e
        \<and> (\<forall>j<k. \<exists>y. body ((x # xs) ! j) = Inr y)"
        by (intro exI [of _ 0]) simp
    qed
    then show ?thesis using Inl by simp
  next
    case (Inr y)
    have "(\<exists>k<length (x # xs). body ((x # xs) ! k) = Inl e
        \<and> (\<forall>j<k. \<exists>y. body ((x # xs) ! j) = Inr y))
      \<longleftrightarrow> (\<exists>k<length xs. body (xs ! k) = Inl e \<and> (\<forall>j<k. \<exists>y. body (xs ! j) = Inr y))"
    proof
      assume "\<exists>k<length (x # xs). body ((x # xs) ! k) = Inl e
        \<and> (\<forall>j<k. \<exists>y. body ((x # xs) ! j) = Inr y)"
      then obtain k where kl: "k < length (x # xs)" and k: "body ((x # xs) ! k) = Inl e"
        and before: "\<forall>j<k. \<exists>y. body ((x # xs) ! j) = Inr y"
        by blast
      from k Inr obtain k' where k': "k = Suc k'" by (cases k) simp_all
      have "\<forall>j<k'. \<exists>y. body (xs ! j) = Inr y"
      proof (intro allI impI)
        fix j assume "j < k'"
        then have "Suc j < k" using k' by simp
        then have "\<exists>y. body ((x # xs) ! Suc j) = Inr y" using before by blast
        then show "\<exists>y. body (xs ! j) = Inr y" by simp
      qed
      then show "\<exists>k<length xs. body (xs ! k) = Inl e \<and> (\<forall>j<k. \<exists>y. body (xs ! j) = Inr y)"
        using kl k k' by (intro exI [of _ k']) simp
    next
      assume "\<exists>k<length xs. body (xs ! k) = Inl e \<and> (\<forall>j<k. \<exists>y. body (xs ! j) = Inr y)"
      then obtain k where kl: "k < length xs" and k: "body (xs ! k) = Inl e"
        and before: "\<forall>j<k. \<exists>y. body (xs ! j) = Inr y"
        by blast
      have "\<forall>j<Suc k. \<exists>y. body ((x # xs) ! j) = Inr y"
      proof (intro allI impI)
        fix j assume j: "j < Suc k"
        show "\<exists>y. body ((x # xs) ! j) = Inr y"
          using j before Inr by (cases j) simp_all
      qed
      then show "\<exists>k<length (x # xs). body ((x # xs) ! k) = Inl e
        \<and> (\<forall>j<k. \<exists>y. body ((x # xs) ! j) = Inr y)"
        using kl k by (intro exI [of _ "Suc k"]) simp
    qed
    moreover have "for_each body (x # xs) = Inl e \<longleftrightarrow> for_each body xs = Inl e"
      using Inr by (cases "for_each body xs") simp_all
    ultimately show ?thesis using Cons.IH by blast
  qed
qed

lemma get_image_error:
  "get_image_as_np_array env f = Inl e \<longleftrightarrow> image_open env f = Inl e"
  by (simp add: get_image_as_np_array_def split: sum.splits)

lemma framed_image_error:
  "image_open env f = Inl e \<Longrightarrow> get_image_as_np_array_with_frame env f w = Inl e"
  by (simp add: get_image_as_np_array_with_frame_def get_image_as_np_array_def)

lemma plot_absent_example:
  "example_image \<notin> set filenames \<Longrightarrow>
     plot_nearest_neighbors_3x3 env filenames embeddings example_image i = Inl ValueError"
  by (simp add: plot_nearest_neighbors_3x3_def nearest_neighbors_def list_index_absent)

lemma embed_empty: "embed T m [] = Inl RuntimeError"
  by (simp add: embed_def torch_cat_def Let_def)

lemma plot_all_first_error:
  "plot_all_examples env filenames embeddings = Inl e \<longleftrightarrow>
     (\<exists>k<length example_images.
        plot_nearest_neighbors_3x3 env filenames embeddings (example_images ! k) k = Inl e
      \<and> (\<forall>j<k. \<exists>fig.
            plot_nearest_neighbors_3x3 env filenames embeddings (example_images ! j) j = Inr fig))"
proof -
  let ?body = "\<lambda>ie. plot_nearest_neighbors_3x3 env filenames embeddings (snd ie) (fst ie)"
  have b: "?body (enumerate 0 example_images ! k) =
      plot_nearest_neighbors_3x3 env filenames embeddings (example_images ! k) k"
    if "k < length example_images" for k
    using that by (simp add: nth_enumerate_eq)
  have "plot_all_examples env filenames embeddings = Inl e \<longleftrightarrow>
      (\<exists>k<length (enumerate 0 example_images). ?body (enumerate 0 example_images ! k) = Inl e
         \<and> (\<forall>j<k. \<exists>y. ?body (enumerate 0 example_images ! j) = Inr y))"
    unfolding plot_all_examples_def by (rule for_each_first_error)
  also have "\<dots> \<longleftrightarrow> (\<exists>k<length example_images.
        plot_nearest_neighbors_3x3 env filenames embeddings (example_images ! k) k = Inl e
      \<and> (\<forall>j<k. \<exists>fig.
            plot_nearest_neighbors_3x3 env filenames embeddings (example_images ! j) j = Inr fig))"
    using b by (auto simp add: nth_enumerate_eq)
  finally show ?thesis .
qed

subsection \<open>Every cell propagates the exceptions of its calls\<close>


























text \<open>
  What propagation gives for one call: if a call that the run made was to raise \<open>e\<close>, the
  run ended with \<open>e\<close>, that call was the last one made, and the state left behind is the
  state in which it was made.
\<close>

lemma propagated_fault:
  assumes p: "propagated F (r, s', tr)"
    and c: "c \<in> set tr"
    and e: "F (call_name c) (occurrence c) = Some e"
  shows "r = Inl e \<and> c = last tr \<and> s' = state_before c"
proof -
  have faults: "\<forall>c\<in>set tr. \<forall>e. F (call_name c) (occurrence c) = Some e \<longrightarrow> raised c = Some e"
    and before: "\<forall>c\<in>set (butlast tr). raised c = None"
    using p by (simp_all add: propagated_def)
  have rc: "raised c = Some e" using faults c e by blast
  have ne: "tr \<noteq> []" using c by auto
  have "c \<notin> set (butlast tr)" using before rc by auto
  moreover have "set tr = set (butlast tr) \<union> {last tr}"
    using ne by (metis append_butlast_last_id list.simps(15) set_append Un_insert_right
        sup_bot.right_neutral list.set(1))
  ultimately have l: "c = last tr" using c by auto
  show ?thesis
  proof (cases r)
    case (Inl e')
    then have "raised (last tr) = Some e'" "state_before (last tr) = s'"
      using p by (simp_all add: propagated_def)
    then show ?thesis using Inl l rc by simp
  next
    case (Inr a)
    then have "\<forall>c\<in>set tr. raised c = None" using p by (simp add: propagated_def)
    then show ?thesis using c rc by auto
  qed
qed

subsection \<open>Runs with nothing in the table of faults\<close>

text \<open>
  With nothing in the table of faults the programs of the cells do what the functions
  of the earlier sections say: the same result, the same exception.
\<close>

lemma result_then:
  "fst (then_nb m f F s) =
     (case fst (m F s) of Inl e \<Rightarrow> Inl e | Inr a \<Rightarrow> fst (f a F (fst (snd (m F s)))))"
  by (simp add: then_nb_def split: prod.splits sum.splits)

lemma state_then:
  "fst (snd (then_nb m f F s)) =
     (case fst (m F s) of
        Inl e \<Rightarrow> fst (snd (m F s))
      | Inr a \<Rightarrow> fst (snd (f a F (fst (snd (m F s))))))"
  by (simp add: then_nb_def split: prod.splits sum.splits)

lemma ends_value: "ends (value_nb a) s (Inr a) s"
  by (simp add: ends_def value_nb_def)

lemma ends_read: "ends (read_nb var) s (Inr (var s)) s"
  by (simp add: ends_def read_nb_def)

lemma ends_assign: "ends (assign_nb upd) s (Inr ()) (upd s)"
  by (simp add: ends_def assign_nb_def)

lemma ends_lib_call: "ends (lib_call name occ outcome) s outcome s"
  by (simp add: ends_def lib_call_def no_faults_def split: sum.splits)

lemma ends_lib_effect: "ends (lib_effect name occ upd) s (Inr ()) (upd s)"
  by (simp add: ends_def lib_effect_def no_faults_def)

lemma ends_then:
  "ends m s (Inr a) s' \<Longrightarrow> ends (f a) s' r s'' \<Longrightarrow> ends (then_nb m f) s r s''"
  by (simp add: ends_def result_then state_then)

lemma ends_raise: "ends m s (Inl e) s' \<Longrightarrow> ends (then_nb m f) s (Inl e) s'"
  by (simp add: ends_def result_then state_then)

lemma ends_for:
  assumes "\<And>x s. ends (body x) s (Inr ()) (f x s)"
  shows "ends (for_nb xs body) s (Inr ()) (fold f xs s)"
proof (induction xs arbitrary: s)
  case Nil
  show ?case by (simp add: ends_value)
next
  case (Cons x xs)
  have "ends (then_nb (body x) (\<lambda>u. for_nb xs body)) s (Inr ()) (fold f xs (f x s))"
    by (rule ends_then [where a = "()" and s' = "f x s"]) (rule assms, rule Cons.IH)
  then show ?case by simp
qed

lemma fold_enumerate_snd: "fold (\<lambda>ix. f (snd ix)) (enumerate n xs) s = fold f xs s"
  by (induction xs arbitrary: n s) simp_all

text \<open>The training cell.\<close>

lemma ends_train_step: "ends (train_step_nb T e b batch) s (Inr ()) (train_step T batch s)"
  by (simp add: ends_def train_step_nb_def forward_nb_def then_nb_def lib_call_def lib_effect_def
      no_faults_def value_nb_def read_nb_def assign_nb_def train_step_def forward_def Let_def
      output_std_def)

lemma ends_train_epoch: "ends (train_epoch_nb T loader e) s (Inr ()) (train_epoch T loader e s)"
proof -
  let ?body = "\<lambda>b_batch.
        then_nb (lib_call ''next(dataloader_train_simsiam)'' [e, fst b_batch]
                   (Inr (snd b_batch))) (\<lambda>batch.
        train_step_nb T e (fst b_batch) batch)"
  have body: "ends (?body x) s (Inr ()) (train_step T (snd x) s)" for x s
    by (rule ends_then [where a = "snd x" and s' = s]) (rule ends_lib_call, rule ends_train_step)
  have "ends (for_nb (enumerate 0 (loader e)) ?body) s (Inr ())
      (fold (\<lambda>x. train_step T (snd x)) (enumerate 0 (loader e)) s)"
    by (rule ends_for) (rule body)
  then have loop: "ends (for_nb (enumerate 0 (loader e)) ?body) s (Inr ())
      (fold (train_step T) (loader e) s)"
    by (simp only: fold_enumerate_snd)
  have rest: "ends (then_nb (read_nb avg_output_std) (\<lambda>a.
     then_nb (lib_call ''math.sqrt(out_dim)'' [e] (Inr (sqrt (real out_dim)))) (\<lambda>root.
     then_nb (value_nb (max 0 (1 - root * a))) (\<lambda>collapse_level.
     then_nb (read_nb avg_loss) (\<lambda>l.
     lib_effect ''print'' [e] (\<lambda>s. s\<lparr>printed := printed s @ [(e, l, collapse_level)]\<rparr>))))))
     s' (Inr ()) (s'\<lparr>printed := printed s' @ [(e, avg_loss s', collapse_level (avg_output_std s'))]\<rparr>)"
    for s' :: "('a, 'b, 'c, 'd) train_state"
    by (simp add: ends_def then_nb_def read_nb_def lib_call_def lib_effect_def value_nb_def
        no_faults_def collapse_level_def)
  show ?thesis
    unfolding train_epoch_nb_def train_epoch_def Let_def
    apply (rule ends_then [OF loop])
    apply (rule rest)
    done
qed

lemma ends_training:
  "ends (training_nb T loader n) s (Inr ())
     (train T loader n (s\<lparr>avg_loss := 0, avg_output_std := 0\<rparr>))"
proof -
  have loop: "ends (for_nb [0..<n] (train_epoch_nb T loader)) s' (Inr ()) (train T loader n s')"
    for s'
    unfolding train_def by (rule ends_for) (rule ends_train_epoch)
  show ?thesis
    unfolding training_nb_def
    apply (rule ends_then [OF ends_lib_call])
    apply (rule ends_then [OF ends_lib_effect])
    apply (rule ends_then [OF ends_assign])
    apply (rule ends_then [OF ends_assign])
    using loop [of "s\<lparr>avg_loss := 0, avg_output_std := 0\<rparr>"] apply simp
    done
qed

lemma training_nb_cell:
  "ends (training_nb T loader epochs) (initial_state m g opt) (Inr ())
     (training_cell T loader m g opt)"
  using ends_training [of T loader epochs "initial_state m g opt"]
  by (simp add: training_cell_def initial_state_def)

text \<open>The embedding cell.\<close>

lemma fold_embed_state:
  "fold (\<lambda>batch s. s\<lparr>es_embeddings := es_embeddings s @
              [flatten_start_dim1 T (backbone (es_model s) (training (es_model s)) (fst batch))],
            es_filenames := es_filenames s @ snd batch\<rparr>) loader s
   = s\<lparr>es_embeddings :=
         fst (fold (embed_step T (es_model s)) loader (es_embeddings s, es_filenames s)),
       es_filenames :=
         snd (fold (embed_step T (es_model s)) loader (es_embeddings s, es_filenames s))\<rparr>"
  by (induction loader arbitrary: s) (simp_all add: embed_step_def Let_def)

lemma ends_embedding:
  "ends (embedding_nb T loader) s
     (map_sum id (\<lambda>r. ()) (embed T (es_model s) loader))
     (case embed T (es_model s) loader of
        Inl e \<Rightarrow>
          s\<lparr>es_model := model_eval (es_model s),
            es_embeddings := fst (fold (embed_step T (model_eval (es_model s))) loader ([], [])),
            es_filenames := snd (fold (embed_step T (model_eval (es_model s))) loader ([], []))\<rparr>
      | Inr r \<Rightarrow>
          s\<lparr>es_model := model_eval (es_model s),
            es_embeddings := fst (fold (embed_step T (model_eval (es_model s))) loader ([], [])),
            es_filenames := snd r,
            es_array := Some (fst r)\<rparr>)"
proof -
  let ?step = "\<lambda>batch s. s\<lparr>es_embeddings := es_embeddings s @
              [flatten_start_dim1 T (backbone (es_model s) (training (es_model s)) (fst batch))],
            es_filenames := es_filenames s @ snd batch\<rparr>"
  let ?body = "\<lambda>i_batch.
        then_nb (lib_call ''next(dataloader_test)'' [fst i_batch] (Inr (snd i_batch))) (\<lambda>batch.
        then_nb (lib_call ''x.to(device)'' [fst i_batch] (Inr (fst batch))) (\<lambda>x.
        then_nb (read_nb es_model) (\<lambda>m.
        then_nb (lib_call ''model.backbone(x).flatten(start_dim=1)'' [fst i_batch]
                   (Inr (flatten_start_dim1 T (backbone m (training m) x)))) (\<lambda>y.
        then_nb (lib_effect ''embeddings.append(y)'' [fst i_batch]
                   (\<lambda>s. s\<lparr>es_embeddings := es_embeddings s @ [y]\<rparr>)) (\<lambda>u.
        then_nb (lib_call ''list(fnames)'' [fst i_batch] (Inr (snd batch))) (\<lambda>fnames.
        assign_nb (\<lambda>s. s\<lparr>es_filenames := es_filenames s @ fnames\<rparr>)))))))"
  have body: "ends (?body x) s' (Inr ()) (?step (snd x) s')"
    for x and s' :: "('a, 'b) embed_state"
    by (simp add: ends_def then_nb_def read_nb_def lib_call_def lib_effect_def assign_nb_def
        no_faults_def)
  have all: "ends (for_nb (enumerate 0 loader) ?body) s' (Inr ())
      (fold (\<lambda>x. ?step (snd x)) (enumerate 0 loader) s')" for s' :: "('a, 'b) embed_state"
    by (rule ends_for) (rule body)
  have loop: "ends (for_nb (enumerate 0 loader) ?body) s' (Inr ()) (fold ?step loader s')"
    for s' :: "('a, 'b) embed_state"
    using all [of s'] fold_enumerate_snd [of ?step 0 loader s'] by simp
  have loop': "fst (for_nb (enumerate 0 loader) ?body no_faults s') = Inr ()"
    "fst (snd (for_nb (enumerate 0 loader) ?body no_faults s')) = fold ?step loader s'"
    for s' :: "('a, 'b) embed_state"
    using loop [of s'] by (simp_all add: ends_def)
  show ?thesis
    unfolding embedding_nb_def ends_def
    by (simp add: result_then state_then loop' fold_embed_state
        assign_nb_def lib_effect_def lib_call_def read_nb_def no_faults_def
        embed_def Let_def model_eval_def torch_cat_def split: sum.splits)
qed

text \<open>The rescaling cell.\<close>

lemma ends_rescale_result:
  "fst (rescale_nb fit_transform embeddings no_faults s)
     = map_sum id (\<lambda>r. ()) (rescale (fit_transform embeddings))"
  by (simp add: rescale_nb_def rescale_def result_then state_then
      assign_nb_def lib_call_def no_faults_def Let_def)

lemma ends_rescale_state:
  "rescale (fit_transform embeddings) = Inr R \<Longrightarrow>
     rs_embeddings_2d (fst (snd (rescale_nb fit_transform embeddings no_faults s))) = Some R"
  by (simp add: rescale_nb_def rescale_def result_then state_then
      assign_nb_def lib_call_def no_faults_def Let_def split: if_splits)

text \<open>The plotting cells.\<close>

lemma ends_get_image:
  "ends (get_image_as_np_array_nb env occ filename) s (get_image_as_np_array env filename) s"
  by (simp add: ends_def get_image_as_np_array_nb_def get_image_as_np_array_def
      result_then state_then lib_call_def no_faults_def split: sum.splits)

lemma ends_get_image_with_frame:
  "ends (get_image_as_np_array_with_frame_nb env occ filename w) s
     (get_image_as_np_array_with_frame env filename w) s"
proof -
  have g: "fst (get_image_as_np_array_nb env occ filename no_faults s)
      = get_image_as_np_array env filename"
    "fst (snd (get_image_as_np_array_nb env occ filename no_faults s)) = s"
    using ends_get_image [of env occ filename s] by (simp_all add: ends_def)
  show ?thesis
    unfolding ends_def get_image_as_np_array_with_frame_nb_def get_image_as_np_array_with_frame_def
    by (auto simp add: result_then state_then g lib_call_def value_nb_def no_faults_def Let_def
        split: sum.splits list.splits)
qed

lemma for_nb_for_each:
  assumes "\<And>x s. fst (body x no_faults s) = map_sum id (\<lambda>r. ()) (g x)"
  shows "fst (for_nb xs body no_faults s) = map_sum id (\<lambda>r. ()) (for_each g xs)"
proof (induction xs arbitrary: s)
  case Nil
  show ?case by (simp add: value_nb_def)
next
  case (Cons x xs)
  show ?case
    using assms [of x s] Cons.IH
    by (simp add: result_then split: sum.splits)
qed

lemma result_lib_call: "fst (lib_call name occ outcome no_faults s) = outcome"
  by (simp add: lib_call_def no_faults_def split: sum.splits)

lemma state_lib_call: "fst (snd (lib_call name occ outcome no_faults s)) = s"
  by (simp add: lib_call_def no_faults_def split: sum.splits)

lemma result_lib_effect: "fst (lib_effect name occ upd no_faults s) = Inr ()"
  by (simp add: lib_effect_def no_faults_def)

lemma state_lib_effect: "fst (snd (lib_effect name occ upd no_faults s)) = upd s"
  by (simp add: lib_effect_def no_faults_def)

lemma result_value: "fst (value_nb a F s) = Inr a"
  by (simp add: value_nb_def)

lemma state_value: "fst (snd (value_nb a F s)) = s"
  by (simp add: value_nb_def)

lemma result_read: "fst (read_nb var F s) = Inr (var s)"
  by (simp add: read_nb_def)

lemma state_read: "fst (snd (read_nb var F s)) = s"
  by (simp add: read_nb_def)

lemma result_assign: "fst (assign_nb upd F s) = Inr ()"
  by (simp add: assign_nb_def)

lemma state_assign: "fst (snd (assign_nb upd F s)) = upd s"
  by (simp add: assign_nb_def)

lemmas run_simps =
  result_then state_then result_lib_call state_lib_call result_lib_effect state_lib_effect
  result_value state_value result_read state_read result_assign state_assign

lemma plot_nb_result:
  "fst (plot_nearest_neighbors_3x3_nb env filenames embeddings example_image i no_faults s)
     = map_sum id (\<lambda>r. ()) (plot_nearest_neighbors_3x3 env filenames embeddings example_image i)"
proof -
  let ?body = "\<lambda>op.
        then_nb (value_nb (fst op)) (\<lambda>plot_offset.
        then_nb (value_nb (snd op)) (\<lambda>plot_idx.
        then_nb (lib_effect ''fig.add_subplot(3, 3, plot_offset + 1)'' [i, plot_offset]
                   (on_last (\<lambda>fig. fig\<lparr>fg_axes := fg_axes fig @
                      [\<lparr>ax_position = plot_offset + 1, ax_title = None, ax_image = None,
                        ax_off = False\<rparr>]\<rparr>))) (\<lambda>u.
        then_nb (lib_call ''os.path.join(path_to_data, filenames[plot_idx])'' [i, plot_offset]
                   (case list_getitem filenames plot_idx of
                      Inl e \<Rightarrow> Inl e
                    | Inr f \<Rightarrow> Inr (os_path_join path_to_data f))) (\<lambda>fname.
        then_nb (if plot_offset = 0
                 then
                   then_nb (lib_effect ''ax.set_title'' [i, plot_offset]
                              (on_current_axes (\<lambda>ax. ax\<lparr>ax_title := Some ''Example Image''\<rparr>))) (\<lambda>u.
                   then_nb (get_image_as_np_array_with_frame_nb env [i, plot_offset] fname 5) (\<lambda>img.
                   lib_effect ''plt.imshow'' [i, plot_offset]
                     (on_current_axes (\<lambda>ax. ax\<lparr>ax_image := Some img\<rparr>))))
                 else
                   then_nb (get_image_as_np_array_nb env [i, plot_offset] fname) (\<lambda>img.
                   lib_effect ''plt.imshow'' [i, plot_offset]
                     (on_current_axes (\<lambda>ax. ax\<lparr>ax_image := Some img\<rparr>)))) (\<lambda>u.
        lib_effect ''plt.axis(off)'' [i, plot_offset]
          (on_current_axes (\<lambda>ax. ax\<lparr>ax_off := True\<rparr>)))))))"
  let ?g = "\<lambda>op.
                  let plot_offset = fst op; plot_idx = snd op
                  in case list_getitem filenames plot_idx of
                       Inl e \<Rightarrow> Inl e
                     | Inr f \<Rightarrow>
                         (let fname = os_path_join path_to_data f
                          in if plot_offset = 0
                             then (case get_image_as_np_array_with_frame env fname 5 of
                                     Inl e \<Rightarrow> Inl e
                                   | Inr img \<Rightarrow>
                                       Inr \<lparr>position = plot_offset + 1,
                                            title = Some ''Example Image'', shown = img\<rparr>)
                             else (case get_image_as_np_array env fname of
                                     Inl e \<Rightarrow> Inl e
                                   | Inr img \<Rightarrow>
                                       Inr \<lparr>position = plot_offset + 1,
                                            title = None, shown = img\<rparr>))"
  have gi: "fst (get_image_as_np_array_nb env occ f no_faults s') = get_image_as_np_array env f"
    "fst (snd (get_image_as_np_array_nb env occ f no_faults s')) = s'"
    for occ f and s' :: "'a figure_state list"
    using ends_get_image [of env occ f s'] by (simp_all add: ends_def)
  have gf: "fst (get_image_as_np_array_with_frame_nb env occ f w no_faults s')
      = get_image_as_np_array_with_frame env f w"
    "fst (snd (get_image_as_np_array_with_frame_nb env occ f w no_faults s')) = s'"
    for occ f w and s' :: "'a figure_state list"
    using ends_get_image_with_frame [of env occ f w s'] by (simp_all add: ends_def)
  have body: "fst (?body op no_faults s') = map_sum id (\<lambda>r. ()) (?g op)"
    for op and s' :: "'a figure_state list"
    by (simp add: result_then state_then gi gf lib_call_def lib_effect_def value_nb_def
        no_faults_def Let_def split: sum.splits)
  have loop: "fst (for_nb xs ?body no_faults s') = map_sum id (\<lambda>r. ()) (for_each ?g xs)"
    for xs and s' :: "'a figure_state list"
    by (rule for_nb_for_each) (rule body)
  show ?thesis
    unfolding plot_nearest_neighbors_3x3_nb_def plot_nearest_neighbors_3x3_def nearest_neighbors_def
    apply (simp only: run_simps loop)
    apply (simp add: sq_distances_def comp_def split: sum.splits)
    done
qed

lemma plot_all_nb_result:
  "fst (plot_all_examples_nb env filenames embeddings no_faults s)
     = map_sum id (\<lambda>r. ()) (plot_all_examples env filenames embeddings)"
  unfolding plot_all_examples_nb_def plot_all_examples_def
  by (rule for_nb_for_each) (rule plot_nb_result)

text \<open>
  The scatter plot. The selection loop indexes \<^verbatim>\<open>embeddings_2d\<close> with the entries of the
  shuffled iterator; \<^verbatim>\<open>np.random.shuffle\<close> permutes its argument, so they are in range.
\<close>

lemma ends_for_inv:
  assumes "\<And>x s. x \<in> set xs \<Longrightarrow> I s \<Longrightarrow> ends (body x) s (Inr ()) (f x s) \<and> I (f x s)"
    and "I s"
  shows "ends (for_nb xs body) s (Inr ()) (fold f xs s)"
  using assms
proof (induction xs arbitrary: s)
  case Nil
  show ?case by (simp add: ends_value)
next
  case (Cons x xs)
  have x: "ends (body x) s (Inr ()) (f x s)" and i: "I (f x s)"
    using Cons.prems(1) [of x s] Cons.prems(2) by simp_all
  have r: "ends (for_nb xs body) (f x s) (Inr ()) (fold f xs (f x s))"
    using Cons.prems(1) i by (intro Cons.IH) simp_all
  have "ends (then_nb (body x) (\<lambda>u. for_nb xs body)) s (Inr ()) (fold f xs (f x s))"
    by (rule ends_then [where a = "()" and s' = "f x s"]) (rule x, rule r)
  then show ?case by simp
qed

lemma ends_select:
  assumes "i < length E" and "sc_shown_images s \<noteq> []"
  shows "ends (select_nb E i) s (Inr ())
     (s\<lparr>sc_shown_images := fst (scatter_step E i (sc_shown_images s, sc_shown_images_idx s)),
        sc_shown_images_idx := snd (scatter_step E i (sc_shown_images s, sc_shown_images_idx s))\<rparr>)"
  using assms
  by (simp add: ends_def select_nb_def run_simps list_getitem_def scatter_step_def Let_def)

lemma fold_select_state:
  "fold (\<lambda>i s. s\<lparr>sc_shown_images :=
            fst (scatter_step E i (sc_shown_images s, sc_shown_images_idx s)),
          sc_shown_images_idx :=
            snd (scatter_step E i (sc_shown_images s, sc_shown_images_idx s))\<rparr>) it s
   = s\<lparr>sc_shown_images :=
         fst (fold (scatter_step E) it (sc_shown_images s, sc_shown_images_idx s)),
       sc_shown_images_idx :=
         snd (fold (scatter_step E) it (sc_shown_images s, sc_shown_images_idx s))\<rparr>"
  by (induction it arbitrary: s) simp_all

lemma scatter_step_shown: "fst st \<noteq> [] \<Longrightarrow> fst (scatter_step E i st) \<noteq> []"
  by (simp add: scatter_step_def Let_def)

lemma fold_scatter_step_idx:
  "set (snd (fold (scatter_step E) it st)) \<subseteq> set it \<union> set (snd st)"
proof (induction it arbitrary: st)
  case Nil
  show ?case by simp
next
  case (Cons i it)
  have "set (snd (scatter_step E i st)) \<subseteq> insert i (set (snd st))"
    by (auto simp add: scatter_step_def Let_def)
  then show ?case using Cons.IH [of "scatter_step E i st"] by auto
qed

lemma ends_select_loop:
  assumes it: "set it \<subseteq> {..<length E}" and ne: "sc_shown_images s \<noteq> []"
  shows "ends (for_nb it (select_nb E)) s (Inr ())
     (s\<lparr>sc_shown_images :=
          fst (fold (scatter_step E) it (sc_shown_images s, sc_shown_images_idx s)),
        sc_shown_images_idx :=
          snd (fold (scatter_step E) it (sc_shown_images s, sc_shown_images_idx s))\<rparr>)"
proof -
  let ?f = "\<lambda>i s. s\<lparr>sc_shown_images :=
            fst (scatter_step E i (sc_shown_images s, sc_shown_images_idx s)),
          sc_shown_images_idx :=
            snd (scatter_step E i (sc_shown_images s, sc_shown_images_idx s))\<rparr>"
  have "ends (for_nb it (select_nb E)) s (Inr ()) (fold ?f it s)"
  proof (rule ends_for_inv [where I = "\<lambda>s. sc_shown_images s \<noteq> []"])
    fix i and s' :: "'a scatter_state"
    assume "i \<in> set it" and n: "sc_shown_images s' \<noteq> []"
    then have "i < length E" using it by auto
    then show "ends (select_nb E i) s' (Inr ()) (?f i s') \<and> sc_shown_images (?f i s') \<noteq> []"
      using ends_select [of i E s'] n scatter_step_shown [of "(sc_shown_images s', sc_shown_images_idx s')" E i]
      by simp
  next
    show "sc_shown_images s \<noteq> []" by (rule ne)
  qed
  then show ?thesis by (simp only: fold_select_state)
qed

lemma thumbnail_result:
  assumes "idx < length E"
  shows "fst (thumbnail_nb env E filenames idx no_faults s)
     = map_sum id (\<lambda>r. ())
         (let thumbnail_size = nat \<lfloor>figsize0 env * 2\<rfloor>
          in case list_getitem filenames idx of
               Inl e \<Rightarrow> Inl e
             | Inr f \<Rightarrow>
                 (case image_open env (os_path_join path_to_data f) of
                    Inl e \<Rightarrow> Inl e
                  | Inr img \<Rightarrow> Inr (resize env img thumbnail_size, E ! idx)))"
  using assms
  by (simp add: thumbnail_nb_def run_simps list_getitem_def Let_def split: sum.splits)

lemma for_nb_for_each_in:
  assumes "\<And>x s. x \<in> set xs \<Longrightarrow> fst (body x no_faults s) = map_sum id (\<lambda>r. ()) (g x)"
  shows "fst (for_nb xs body no_faults s) = map_sum id (\<lambda>r. ()) (for_each g xs)"
  using assms
proof (induction xs arbitrary: s)
  case Nil
  show ?case by (simp add: value_nb_def)
next
  case (Cons x xs)
  have x: "fst (body x no_faults s) = map_sum id (\<lambda>r. ()) (g x)"
    using Cons.prems [of x s] by (simp add: id_def)
  have r: "fst (for_nb xs body no_faults s') = map_sum id (\<lambda>r. ()) (for_each g xs)" for s'
    using Cons.prems by (intro Cons.IH) (simp add: id_def)
  show ?case
    using x r by (simp add: result_then split: sum.splits)
qed

lemma scatter_nb_result:
  assumes perm: "set (shuffle env [0..<length E]) \<subseteq> {..<length E}"
  shows "fst (scatter_nb env E filenames no_faults s)
     = map_sum id (\<lambda>r. ()) (get_scatter_plot_with_thumbnails env E filenames)"
proof -
  let ?it = "shuffle env [0..<length E]"
  let ?s0 = "s\<lparr>sc_figure := True,
               sc_suptitle := Some ''Scatter Plot of the Sentinel-2 Dataset'',
               sc_axes := True, sc_shown_images_idx := [], sc_shown_images := [(1, 1)]\<rparr>"
  let ?idx = "snd (select_shown E ?it)"
  let ?g = "\<lambda>idx.
           let thumbnail_size = nat \<lfloor>figsize0 env * 2\<rfloor>
           in case list_getitem filenames idx of
                Inl e \<Rightarrow> Inl e
              | Inr f \<Rightarrow>
                  (case image_open env (os_path_join path_to_data f) of
                     Inl e \<Rightarrow> Inl e
                   | Inr img \<Rightarrow> Inr (resize env img thumbnail_size, E ! idx))"
  have sel: "ends (for_nb ?it (select_nb E)) ?s0 (Inr ())
      (?s0\<lparr>sc_shown_images := fst (select_shown E ?it), sc_shown_images_idx := ?idx\<rparr>)"
    using ends_select_loop [OF perm, of ?s0] by (simp add: select_shown_def)
  have sel': "fst (for_nb ?it (select_nb E) no_faults ?s0) = Inr ()"
    "fst (snd (for_nb ?it (select_nb E) no_faults ?s0))
       = ?s0\<lparr>sc_shown_images := fst (select_shown E ?it), sc_shown_images_idx := ?idx\<rparr>"
    using sel by (simp_all add: ends_def)
  have "set ?idx \<subseteq> set ?it"
    using fold_scatter_step_idx [of E ?it "([(1, 1)], [])"] by (simp add: select_shown_def)
  then have range: "\<And>idx. idx \<in> set ?idx \<Longrightarrow> idx < length E"
    using perm by auto
  have thumbs: "fst (for_nb ?idx (thumbnail_nb env E filenames) no_faults s')
      = map_sum id (\<lambda>r. ()) (for_each ?g ?idx)" for s' :: "'a scatter_state"
    by (rule for_nb_for_each_in) (rule thumbnail_result, rule range)
  have "fst (scatter_nb env E filenames no_faults s) = map_sum id (\<lambda>r. ()) (for_each ?g ?idx)"
    unfolding scatter_nb_def
    apply (simp only: run_simps sum.case)
    apply (simp only: sel' sum.case)
    apply (simp add: run_simps thumbs split: sum.splits)
    done
  then show ?thesis
    by (simp add: get_scatter_plot_with_thumbnails_def Let_def)
qed

subsection \<open>Runs with faults\<close>













end
